theory Spec2Isabelle
  imports Complex_Main "HOL-Library.Word"
begin

section \<open>Value types shared by the plottables and the color scale\<close>

text \<open>
  A C++ \<^verbatim>\<open>double\<close> is a finite number, an infinity or a NaN. The finite values are
  taken to be the real numbers: the code below stores, copies and compares doubles, and
  where the library multiplies two of them the product is exact here, so that rounding,
  overflow and underflow are not modelled. The two zeros, which C++ compares equal, are one
  value. A C++ \<^verbatim>\<open>int\<close> is an \<^typ>\<open>int\<close>; none of the properties below comes near the
  wrap-around.
\<close>

datatype double = Finite real | PlusInf | MinusInf | NaN

text \<open>
  The comparison operators of C++ on doubles: \<^verbatim>\<open><\<close>, \<^verbatim>\<open>==\<close>, \<^verbatim>\<open>!=\<close>, \<^verbatim>\<open><=\<close> and
  \<^verbatim>\<open>>\<close>. Every comparison with a NaN is false, except \<^verbatim>\<open>!=\<close>, which is then true;
  in particular a NaN is unequal to itself.
\<close>

fun double_less :: "double \<Rightarrow> double \<Rightarrow> bool" where
  "double_less (Finite x) (Finite y) = (x < y)"
| "double_less (Finite x) PlusInf = True"
| "double_less MinusInf (Finite y) = True"
| "double_less MinusInf PlusInf = True"
| "double_less a b = False"

definition double_eq :: "double \<Rightarrow> double \<Rightarrow> bool" where
  "double_eq a b = (a \<noteq> NaN \<and> b \<noteq> NaN \<and> a = b)"

definition double_ne :: "double \<Rightarrow> double \<Rightarrow> bool" where
  "double_ne a b = (\<not> double_eq a b)"

definition double_le :: "double \<Rightarrow> double \<Rightarrow> bool" where
  "double_le a b = (double_less a b \<or> double_eq a b)"

definition double_greater :: "double \<Rightarrow> double \<Rightarrow> bool" where
  "double_greater a b = double_less b a"

text \<open>The conversion of an \<^verbatim>\<open>int\<close> to a \<^verbatim>\<open>double\<close>, the negation and the product.\<close>

definition double_of_int :: "int \<Rightarrow> double" where
  "double_of_int i = Finite (of_int i)"



text \<open>
  Modelled from the spec: \<^verbatim>\<open>axis/range.h\<close> is not among the sources. A range is its
  two public bounds \<^verbatim>\<open>lower\<close> and \<^verbatim>\<open>upper\<close>, which the color scale reads directly.
\<close>

record QCPRange =
  lower :: double
  upper :: double

text \<open>
  Modelled from the spec: the two-argument constructor of \<^verbatim>\<open>QCPRange\<close> stores its
  arguments and normalises them, that is, it swaps them when \<^verbatim>\<open>lower > upper\<close>;
  \<^verbatim>\<open>contains(value)\<close> is \<^verbatim>\<open>value >= lower && value <= upper\<close>.
\<close>

definition QCPRange_ctor :: "double \<Rightarrow> double \<Rightarrow> QCPRange" where
  "QCPRange_ctor l u =
     (if double_greater l u then \<lparr>lower = u, upper = l\<rparr> else \<lparr>lower = l, upper = u\<rparr>)"

definition contains :: "QCPRange \<Rightarrow> double \<Rightarrow> bool" where
  "contains r x = (double_le (lower r) x \<and> double_le x (upper r))"





section \<open>The data structs of the financial and the graph plottable\<close>

text \<open>\<^verbatim>\<open>class QCPFinancialData { double key, open, high, low, close; }\<close>\<close>

record QCPFinancialData =
  key :: double
  "open" :: double
  high :: double
  low :: double
  close :: double

text \<open>
  Modelled from the spec: the five-argument constructor, which the header declares and the
  absent \<^verbatim>\<open>plottable-financial.cpp\<close> defines, initialises each member from the argument
  of its name.
\<close>

definition QCPFinancialData_ctor ::
  "double \<Rightarrow> double \<Rightarrow> double \<Rightarrow> double \<Rightarrow> double \<Rightarrow> QCPFinancialData" where
  "QCPFinancialData_ctor k o' h l c = \<lparr>key = k, open = o', high = h, low = l, close = c\<rparr>"

definition QCPFinancialData_sortKey :: "QCPFinancialData \<Rightarrow> double" where
  "QCPFinancialData_sortKey d = key d"

definition QCPFinancialData_fromSortKey :: "double \<Rightarrow> QCPFinancialData" where
  "QCPFinancialData_fromSortKey sortKey =
     QCPFinancialData_ctor sortKey (Finite 0) (Finite 0) (Finite 0) (Finite 0)"

definition QCPFinancialData_sortKeyIsMainKey :: bool where
  "QCPFinancialData_sortKeyIsMainKey = True"

definition QCPFinancialData_mainKey :: "QCPFinancialData \<Rightarrow> double" where
  "QCPFinancialData_mainKey d = key d"

definition QCPFinancialData_mainValue :: "QCPFinancialData \<Rightarrow> double" where
  "QCPFinancialData_mainValue d = open d"

definition QCPFinancialData_valueRange :: "QCPFinancialData \<Rightarrow> QCPRange" where
  "QCPFinancialData_valueRange d = QCPRange_ctor (low d) (high d)"

text \<open>
  \<^verbatim>\<open>class QCPGraphData { double key, value; }\<close>; the fields carry a prime, since
  \<^verbatim>\<open>key\<close> is a field of the financial struct already.
\<close>

record QCPGraphData =
  key' :: double
  value' :: double

text \<open>
  Modelled from the spec: the two-argument constructor, which the header declares and the
  absent \<^verbatim>\<open>plottable-graph.cpp\<close> defines, initialises each member from the argument of
  its name.
\<close>

definition QCPGraphData_ctor :: "double \<Rightarrow> double \<Rightarrow> QCPGraphData" where
  "QCPGraphData_ctor k v = \<lparr>key' = k, value' = v\<rparr>"

definition QCPGraphData_sortKey :: "QCPGraphData \<Rightarrow> double" where
  "QCPGraphData_sortKey d = key' d"

definition QCPGraphData_fromSortKey :: "double \<Rightarrow> QCPGraphData" where
  "QCPGraphData_fromSortKey sortKey = QCPGraphData_ctor sortKey (Finite 0)"

definition QCPGraphData_sortKeyIsMainKey :: bool where
  "QCPGraphData_sortKeyIsMainKey = True"

definition QCPGraphData_mainKey :: "QCPGraphData \<Rightarrow> double" where
  "QCPGraphData_mainKey d = key' d"

definition QCPGraphData_mainValue :: "QCPGraphData \<Rightarrow> double" where
  "QCPGraphData_mainValue d = value' d"

definition QCPGraphData_valueRange :: "QCPGraphData \<Rightarrow> QCPRange" where
  "QCPGraphData_valueRange d = QCPRange_ctor (value' d) (value' d)"

text \<open>
  The invariant of a financial bar: open and close lie between low and high, as
  \<^verbatim>\<open><=\<close> compares them.
\<close>

definition bar_invariant :: "QCPFinancialData \<Rightarrow> bool" where
  "bar_invariant d =
     (double_le (low d) (open d) \<and> double_le (open d) (high d)
      \<and> double_le (low d) (close d) \<and> double_le (close d) (high d))"


section \<open>The data containers\<close>

text \<open>
  Modelled from the spec: the class template \<^verbatim>\<open>QCPDataContainer\<close> (\<^verbatim>\<open>datacontainer.h\<close>)
  and the bodies of \<^verbatim>\<open>setData\<close> and \<^verbatim>\<open>addData\<close> of the two plottables are not among
  the sources; the headers declare the operations. The specification describes a container
  as a flat sequence of value structs, sorted by key, that is mutated by replace and append
  calls. In the model a container is the list of its entries. Replacing sets the content,
  appending merges the new entries into it; both first sort what they are given by key,
  unless the caller says it is \<^verbatim>\<open>alreadySorted\<close>. The vectors of a call give as many
  entries as the shortest of them has elements.
\<close>

type_synonym 'd QCPDataContainer = "'d list"

text \<open>
  The invariant of a container: its entries are in ascending order of their sort key, each
  key being \<^verbatim>\<open><=\<close> the key of every later entry.
\<close>

definition sorted_by_key :: "('d \<Rightarrow> double) \<Rightarrow> 'd QCPDataContainer \<Rightarrow> bool" where
  "sorted_by_key sortKey c = sorted_wrt (\<lambda>a b. double_le (sortKey a) (sortKey b)) c"

text \<open>The keys of a container are ordinary when none of them is a NaN.\<close>

definition ordinary_keys :: "('d \<Rightarrow> double) \<Rightarrow> 'd list \<Rightarrow> bool" where
  "ordinary_keys sortKey c = (NaN \<notin> set (map sortKey c))"

text \<open>
  Modelled from the spec: putting one entry at its place in a sorted sequence, before the
  first entry whose key is not less than its own, and sorting a sequence by doing so with
  each of its entries. Keys are compared with \<^verbatim>\<open><\<close>, as the library's
  \<^verbatim>\<open>qcpLessThanSortKey\<close> does.
\<close>

fun insert_by_key :: "('d \<Rightarrow> double) \<Rightarrow> 'd \<Rightarrow> 'd list \<Rightarrow> 'd list" where
  "insert_by_key sortKey d [] = [d]"
| "insert_by_key sortKey d (x # xs) =
     (if double_less (sortKey x) (sortKey d)
      then x # insert_by_key sortKey d xs
      else d # x # xs)"

definition sort_by_key :: "('d \<Rightarrow> double) \<Rightarrow> 'd list \<Rightarrow> 'd list" where
  "sort_by_key sortKey data = foldr (insert_by_key sortKey) data []"

text \<open>
  Modelled from the spec: merging new entries into the sorted sequence, an entry of the
  container going before a new entry of the same key.
\<close>

fun merge_by_key :: "('d \<Rightarrow> double) \<Rightarrow> 'd list \<Rightarrow> 'd list \<Rightarrow> 'd list" where
  "merge_by_key sortKey [] ys = ys"
| "merge_by_key sortKey xs [] = xs"
| "merge_by_key sortKey (x # xs) (y # ys) =
     (if double_less (sortKey y) (sortKey x)
      then y # merge_by_key sortKey (x # xs) ys
      else x # merge_by_key sortKey xs (y # ys))"

text \<open>
  Modelled from the spec: \<^verbatim>\<open>QCPDataContainer::set(data, alreadySorted)\<close>, the replace call.
\<close>

definition QCPDataContainer_set ::
  "('d \<Rightarrow> double) \<Rightarrow> 'd list \<Rightarrow> bool \<Rightarrow> 'd QCPDataContainer" where
  "QCPDataContainer_set sortKey data alreadySorted =
     (if alreadySorted then data else sort_by_key sortKey data)"

text \<open>
  Modelled from the spec: \<^verbatim>\<open>QCPDataContainer::add(data, alreadySorted)\<close>, the append call
  for a vector of entries.
\<close>

definition QCPDataContainer_add ::
  "('d \<Rightarrow> double) \<Rightarrow> 'd list \<Rightarrow> bool \<Rightarrow> 'd QCPDataContainer \<Rightarrow> 'd QCPDataContainer" where
  "QCPDataContainer_add sortKey data alreadySorted c =
     merge_by_key sortKey c (if alreadySorted then data else sort_by_key sortKey data)"

text \<open>
  Modelled from the spec: \<^verbatim>\<open>QCPDataContainer::add(data)\<close>, the append call for one entry,
  which goes to its place in the order.
\<close>

definition QCPDataContainer_add_one ::
  "('d \<Rightarrow> double) \<Rightarrow> 'd \<Rightarrow> 'd QCPDataContainer \<Rightarrow> 'd QCPDataContainer" where
  "QCPDataContainer_add_one sortKey d c = insert_by_key sortKey d c"

text \<open>
  Modelled from the spec: \<^verbatim>\<open>QCPFinancial::setData\<close> and \<^verbatim>\<open>QCPFinancial::addData\<close>, in the
  overloads the header declares: from five vectors, from a shared container, and from one
  datum. The last argument is the container before the call.
\<close>

definition QCPFinancial_entries ::
  "double list \<Rightarrow> double list \<Rightarrow> double list \<Rightarrow> double list \<Rightarrow> double list \<Rightarrow> QCPFinancialData list" where
  "QCPFinancial_entries keys opn hi lo cl =
     map (\<lambda>(k, o', h, l, c). QCPFinancialData_ctor k o' h l c)
       (zip keys (zip opn (zip hi (zip lo cl))))"

definition QCPFinancial_setData ::
  "double list \<Rightarrow> double list \<Rightarrow> double list \<Rightarrow> double list \<Rightarrow> double list \<Rightarrow> bool
   \<Rightarrow> QCPFinancialData QCPDataContainer \<Rightarrow> QCPFinancialData QCPDataContainer" where
  "QCPFinancial_setData keys opn hi lo cl alreadySorted c =
     QCPDataContainer_set QCPFinancialData_sortKey (QCPFinancial_entries keys opn hi lo cl)
       alreadySorted"

definition QCPFinancial_setData_shared ::
  "QCPFinancialData QCPDataContainer \<Rightarrow> QCPFinancialData QCPDataContainer
   \<Rightarrow> QCPFinancialData QCPDataContainer" where
  "QCPFinancial_setData_shared data c = data"

definition QCPFinancial_addData ::
  "double list \<Rightarrow> double list \<Rightarrow> double list \<Rightarrow> double list \<Rightarrow> double list \<Rightarrow> bool
   \<Rightarrow> QCPFinancialData QCPDataContainer \<Rightarrow> QCPFinancialData QCPDataContainer" where
  "QCPFinancial_addData keys opn hi lo cl alreadySorted c =
     QCPDataContainer_add QCPFinancialData_sortKey (QCPFinancial_entries keys opn hi lo cl)
       alreadySorted c"

definition QCPFinancial_addData_one ::
  "double \<Rightarrow> double \<Rightarrow> double \<Rightarrow> double \<Rightarrow> double
   \<Rightarrow> QCPFinancialData QCPDataContainer \<Rightarrow> QCPFinancialData QCPDataContainer" where
  "QCPFinancial_addData_one k o' h l cl c =
     QCPDataContainer_add_one QCPFinancialData_sortKey (QCPFinancialData_ctor k o' h l cl) c"

text \<open>
  Modelled from the spec: \<^verbatim>\<open>QCPGraph::setData\<close> and \<^verbatim>\<open>QCPGraph::addData\<close>, in the
  overloads the header declares.
\<close>

definition QCPGraph_entries :: "double list \<Rightarrow> double list \<Rightarrow> QCPGraphData list" where
  "QCPGraph_entries keys vals = map (\<lambda>(k, v). QCPGraphData_ctor k v) (zip keys vals)"

definition QCPGraph_setData ::
  "double list \<Rightarrow> double list \<Rightarrow> bool \<Rightarrow> QCPGraphData QCPDataContainer
   \<Rightarrow> QCPGraphData QCPDataContainer" where
  "QCPGraph_setData keys vals alreadySorted c =
     QCPDataContainer_set QCPGraphData_sortKey (QCPGraph_entries keys vals) alreadySorted"

definition QCPGraph_setData_shared ::
  "QCPGraphData QCPDataContainer \<Rightarrow> QCPGraphData QCPDataContainer
   \<Rightarrow> QCPGraphData QCPDataContainer" where
  "QCPGraph_setData_shared data c = data"

definition QCPGraph_addData ::
  "double list \<Rightarrow> double list \<Rightarrow> bool \<Rightarrow> QCPGraphData QCPDataContainer
   \<Rightarrow> QCPGraphData QCPDataContainer" where
  "QCPGraph_addData keys vals alreadySorted c =
     QCPDataContainer_add QCPGraphData_sortKey (QCPGraph_entries keys vals) alreadySorted c"

definition QCPGraph_addData_one ::
  "double \<Rightarrow> double \<Rightarrow> QCPGraphData QCPDataContainer \<Rightarrow> QCPGraphData QCPDataContainer" where
  "QCPGraph_addData_one k v c =
     QCPDataContainer_add_one QCPGraphData_sortKey (QCPGraphData_ctor k v) c"


section \<open>The color scale: types of the collaborating classes\<close>

text \<open>
  \<^verbatim>\<open>layoutelement-colorscale.cpp\<close> is a client of classes of the library that are defined
  in other files (\<^verbatim>\<open>QCPAxis\<close>, \<^verbatim>\<open>QCPAxisRect\<close>, \<^verbatim>\<open>QCPLayoutElement\<close>,
  \<^verbatim>\<open>QCPColorGradient\<close>, \<^verbatim>\<open>QCPRange\<close>) and of the GUI toolkit (\<^verbatim>\<open>QRect\<close>, \<^verbatim>\<open>QImage\<close>,
  \<^verbatim>\<open>QPainter\<close>, signals and slots), which the specification treats as external
  collaborators. Their data is modelled by the records of this section, with one field per
  property the color scale reads or writes; a property setter is a store to its field.
  Methods that do more than store (the layout update, the mouse handlers, the gradient's
  colour lookup, the sanitizing of a range) are parameters of the functions that call
  them. The delivery of a signal to the slots connected to it belongs to the toolkit and is
  not modelled: the state records which signals the color scale emitted and which
  connections it made.
\<close>

text \<open>
  Modelled from the spec: the enumerations \<^verbatim>\<open>QCPAxis::AxisType\<close>, \<^verbatim>\<open>Qt::Orientation\<close>,
  \<^verbatim>\<open>QCPAxis::ScaleType\<close> and \<^verbatim>\<open>QCPLayoutElement::UpdatePhase\<close>, with the values the
  color scale names.
\<close>

datatype AxisType = atLeft | atRight | atTop | atBottom

datatype Orientation = Horizontal | Vertical

datatype ScaleType = stLinear | stLogarithmic

datatype UpdatePhase = upPreparation | upMargins | upLayout

text \<open>
  Modelled from the spec: \<^verbatim>\<open>QCPAxis::orientation(type)\<close> of the absent \<^verbatim>\<open>axis.h\<close>; the
  bottom and the top axis are horizontal, the left and the right axis vertical.
\<close>

fun orientation :: "AxisType \<Rightarrow> Orientation" where
  "orientation atBottom = Horizontal"
| "orientation atTop = Horizontal"
| "orientation atLeft = Vertical"
| "orientation atRight = Vertical"

text \<open>
  Modelled from the spec: the toolkit's \<^verbatim>\<open>QRgb\<close>, an unsigned 32-bit integer, and its
  \<^verbatim>\<open>QRect\<close>, \<^verbatim>\<open>QMargins\<close> and \<^verbatim>\<open>QSize\<close>. A rect is empty when its width or its
  height is not positive. \<^verbatim>\<open>QWIDGETSIZE_MAX\<close> is the toolkit's constant.
\<close>

type_synonym QRgb = "32 word"

record QRect =
  rect_x :: int
  rect_y :: int
  rect_width :: int
  rect_height :: int

definition isEmpty :: "QRect \<Rightarrow> bool" where
  "isEmpty r = (rect_width r \<le> 0 \<or> rect_height r \<le> 0)"

record QMargins =
  m_left :: int
  m_top :: int
  m_right :: int
  m_bottom :: int

record QSize =
  size_width :: int
  size_height :: int

definition QWIDGETSIZE_MAX :: int where
  "QWIDGETSIZE_MAX = 16777215"

text \<open>
  Modelled from the spec: the toolkit's \<^verbatim>\<open>QImage\<close>, in the format the color scale uses
  (one \<^verbatim>\<open>QRgb\<close> per pixel). An image is its size and its scan lines. A pixel that was allocated and never written is
  \<^term>\<open>None\<close>: \<^verbatim>\<open>QImage(w, h, format)\<close> leaves the pixel data uninitialised. An image
  of no positive size is the null image, as is the default-constructed one.
\<close>

record QImage =
  img_width :: int
  img_height :: int
  scanLines :: "QRgb option list list"

definition QImage_null :: QImage where
  "QImage_null = \<lparr>img_width = 0, img_height = 0, scanLines = []\<rparr>"

definition QImage_ctor :: "int \<Rightarrow> int \<Rightarrow> QImage" where
  "QImage_ctor w h =
     (if w \<le> 0 \<or> h \<le> 0 then QImage_null
      else \<lparr>img_width = w, img_height = h,
            scanLines = replicate (nat h) (replicate (nat w) None)\<rparr>)"


text \<open>
  Modelled from the spec: \<^verbatim>\<open>memcpy(dst, src, n * sizeof(QRgb))\<close> on two scan lines; the
  first \<^term>\<open>n\<close> pixels of \<^term>\<open>dst\<close> become those of \<^term>\<open>src\<close>.
\<close>

definition memcpy :: "'a list \<Rightarrow> 'a list \<Rightarrow> int \<Rightarrow> 'a list" where
  "memcpy dst src n = take (nat n) src @ drop (nat n) dst"



text \<open>
  The part of a \<^verbatim>\<open>QCPColorGradient\<close> that the color scale uses. The class is defined in
  another file: a gradient is a value of a type \<^typ>\<open>'g\<close>, and its three methods are
  parameters. \<^verbatim>\<open>colorize(data, range, scanLine, n)\<close> writes \<^verbatim>\<open>scanLine[0]\<close> to \<^verbatim>\<open>scanLine[n-1]\<close>;
  \<^term>\<open>colorize api g data rng n i\<close> is the colour it writes to \<^verbatim>\<open>scanLine[i]\<close>.
  \<^verbatim>\<open>operator!=\<close> on gradients is inequality of the values of \<^typ>\<open>'g\<close>.
\<close>

record 'g QCPColorGradient_api =
  levelCount :: "'g \<Rightarrow> int"
  color :: "'g \<Rightarrow> double \<Rightarrow> QCPRange \<Rightarrow> QRgb"
  colorize :: "'g \<Rightarrow> double list \<Rightarrow> QCPRange \<Rightarrow> int \<Rightarrow> nat \<Rightarrow> QRgb"

text \<open>The call of \<^verbatim>\<open>colorize\<close> on a scan line: it overwrites the first \<^term>\<open>n\<close> pixels.\<close>

definition colorize_into ::
  "'g QCPColorGradient_api \<Rightarrow> 'g \<Rightarrow> double list \<Rightarrow> QCPRange \<Rightarrow> QRgb option list \<Rightarrow> int
   \<Rightarrow> QRgb option list" where
  "colorize_into api g data rng scanLine n =
     map (\<lambda>i. Some (colorize api g data rng n i)) [0..<nat n] @ drop (nat n) scanLine"

text \<open>
  Modelled from the spec: the properties of a \<^verbatim>\<open>QCPAxis\<close> that the color scale reads or
  sets, under the names of the members of \<^verbatim>\<open>QCPAxis\<close>.
\<close>

record QCPAxis =
  mRange :: QCPRange
  mRangeReversed :: bool
  mLabel :: string
  mScaleType :: ScaleType
  mScaleLogBase :: double
  mTicks :: bool
  mTickLabels :: bool
  mVisible :: bool
  mGridVisible :: bool
  mPadding :: int

text \<open>
  The internal axis rect, \<^verbatim>\<open>QCPColorScaleAxisRectPrivate\<close>, with its own two members
  \<^verbatim>\<open>mGradientImageInvalidated\<close> and \<^verbatim>\<open>mGradientImage\<close>.
  Modelled from the spec: the properties it inherits from \<^verbatim>\<open>QCPAxisRect\<close>, as far as the
  color scale uses them. An axis rect built with default axes has one axis on each side;
  \<^term>\<open>axes r t\<close> is \<^verbatim>\<open>axis(t)\<close>. A pointer to one of these axes is the side the axis is
  on. The getters and setters of the range drag and zoom axes read and store the members.
\<close>

record QCPColorScaleAxisRectPrivate =
  axes :: "AxisType \<Rightarrow> QCPAxis"
  mRangeDrag :: "Orientation set"
  mRangeZoom :: "Orientation set"
  mRangeDragHorzAxis :: "AxisType option"
  mRangeDragVertAxis :: "AxisType option"
  mRangeZoomHorzAxis :: "AxisType option"
  mRangeZoomVertAxis :: "AxisType option"
  mRect :: QRect
  mMargins :: QMargins
  mMinimumMargins :: QMargins
  mGradientImageInvalidated :: bool
  mGradientImage :: QImage

definition rangeDragAxis :: "QCPColorScaleAxisRectPrivate \<Rightarrow> Orientation \<Rightarrow> AxisType option" where
  "rangeDragAxis r ori = (if ori = Horizontal then mRangeDragHorzAxis r else mRangeDragVertAxis r)"

definition rangeZoomAxis :: "QCPColorScaleAxisRectPrivate \<Rightarrow> Orientation \<Rightarrow> AxisType option" where
  "rangeZoomAxis r ori = (if ori = Horizontal then mRangeZoomHorzAxis r else mRangeZoomVertAxis r)"

definition setRangeDragAxes ::
  "AxisType option \<Rightarrow> AxisType option \<Rightarrow> QCPColorScaleAxisRectPrivate
   \<Rightarrow> QCPColorScaleAxisRectPrivate" where
  "setRangeDragAxes horizontal vertical r =
     r\<lparr>mRangeDragHorzAxis := horizontal, mRangeDragVertAxis := vertical\<rparr>"

text \<open>\<^term>\<open>on_axis t f r\<close> is the call \<^verbatim>\<open>axis(t)->f(...)\<close> on the axis rect \<^term>\<open>r\<close>.\<close>

definition on_axis ::
  "AxisType \<Rightarrow> (QCPAxis \<Rightarrow> QCPAxis) \<Rightarrow> QCPColorScaleAxisRectPrivate
   \<Rightarrow> QCPColorScaleAxisRectPrivate" where
  "on_axis t f r = r\<lparr>axes := (axes r)(t := f (axes r t))\<rparr>"

text \<open>
  The methods of \<^verbatim>\<open>QCPAxisRect\<close> that do more than store are parameters, and so are the
  types of the mouse and the wheel event.
\<close>

record ('m, 'w) QCPAxisRect_api =
  QCPAxisRect_update :: "UpdatePhase \<Rightarrow> QCPColorScaleAxisRectPrivate \<Rightarrow> QCPColorScaleAxisRectPrivate"
  QCPAxisRect_setOuterRect :: "QRect \<Rightarrow> QCPColorScaleAxisRectPrivate \<Rightarrow> QCPColorScaleAxisRectPrivate"
  QCPAxisRect_mousePressEvent :: "'m \<Rightarrow> QCPColorScaleAxisRectPrivate \<Rightarrow> QCPColorScaleAxisRectPrivate"
  QCPAxisRect_mouseMoveEvent :: "'m \<Rightarrow> QCPColorScaleAxisRectPrivate \<Rightarrow> QCPColorScaleAxisRectPrivate"
  QCPAxisRect_mouseReleaseEvent :: "'m \<Rightarrow> QCPColorScaleAxisRectPrivate \<Rightarrow> QCPColorScaleAxisRectPrivate"
  QCPAxisRect_wheelEvent :: "'w \<Rightarrow> QCPColorScaleAxisRectPrivate \<Rightarrow> QCPColorScaleAxisRectPrivate"


section \<open>The color scale: state\<close>

datatype 'g signal =
  dataRangeChanged QCPRange
| dataScaleTypeChanged ScaleType
| gradientChanged 'g

datatype axis_signal = rangeChanged | scaleTypeChanged

datatype slot = setDataRange_slot | setDataScaleType_slot

text \<open>
  \<^verbatim>\<open>QCPColorScale\<close>. \<^verbatim>\<open>mAxisRect\<close> is a guarded pointer, \<^term>\<open>None\<close> once the axis rect
  was deleted. \<^verbatim>\<open>mColorAxis\<close> is a guarded pointer to an axis of that axis rect: it is
  null when it was never set, and when the axis rect, which owns the axes, is gone. The
  members \<^verbatim>\<open>mMargins\<close>, \<^verbatim>\<open>mMinimumMargins\<close>, \<^verbatim>\<open>mRect\<close>, \<^verbatim>\<open>mMinimumSize\<close> and
  \<^verbatim>\<open>mMaximumSize\<close> are inherited from \<^verbatim>\<open>QCPLayoutElement\<close>; their names carry the
  prefix \<^verbatim>\<open>le\<close> here. \<^verbatim>\<open>emitted\<close>, \<^verbatim>\<open>connections\<close> and \<^verbatim>\<open>debugLog\<close> record the
  signals emitted, the connections from the axes' signals to the slots of the color scale,
  and the lines written with \<^verbatim>\<open>qDebug()\<close>, each as the function and its message.
\<close>

record 'g QCPColorScale =
  mAxisType :: AxisType
  mDataRange :: QCPRange
  mDataScaleType :: ScaleType
  mGradient :: 'g
  mBarWidth :: int
  mAxisRect :: "QCPColorScaleAxisRectPrivate option"
  mColorAxis :: "AxisType option"
  leMargins :: QMargins
  leMinimumMargins :: QMargins
  leRect :: QRect
  leMinimumSize :: QSize
  leMaximumSize :: QSize
  emitted :: "'g signal list"
  connections :: "(AxisType \<times> axis_signal \<times> slot) list"
  debugLog :: "(string \<times> string) list"

text \<open>
  A line written with \<^verbatim>\<open>qDebug() << Q_FUNC_INFO << message\<close> is recorded as the name of
  the function and the message.
\<close>

definition qDebug :: "string \<Rightarrow> string \<Rightarrow> 'g QCPColorScale \<Rightarrow> 'g QCPColorScale" where
  "qDebug func msg s = s\<lparr>debugLog := debugLog s @ [(func, msg)]\<rparr>"

definition emit :: "'g signal \<Rightarrow> 'g QCPColorScale \<Rightarrow> 'g QCPColorScale" where
  "emit sig s = s\<lparr>emitted := emitted s @ [sig]\<rparr>"

definition connect :: "AxisType \<Rightarrow> axis_signal \<Rightarrow> slot \<Rightarrow> 'g QCPColorScale \<Rightarrow> 'g QCPColorScale" where
  "connect sender sig sl s = s\<lparr>connections := connections s @ [(sender, sig, sl)]\<rparr>"

definition disconnect :: "AxisType \<Rightarrow> axis_signal \<Rightarrow> slot \<Rightarrow> 'g QCPColorScale \<Rightarrow> 'g QCPColorScale" where
  "disconnect sender sig sl s =
     s\<lparr>connections := filter (\<lambda>c. c \<noteq> (sender, sig, sl)) (connections s)\<rparr>"

text \<open>
  What the guarded pointer \<^verbatim>\<open>mColorAxis\<close> points to: the axis rect it lives in and its
  side, or nothing.
\<close>

definition colorAxis :: "'g QCPColorScale \<Rightarrow> (QCPColorScaleAxisRectPrivate \<times> AxisType) option" where
  "colorAxis s =
     (case mAxisRect s of
        None \<Rightarrow> None
      | Some r \<Rightarrow> (case mColorAxis s of None \<Rightarrow> None | Some t \<Rightarrow> Some (r, t)))"

text \<open>\<^term>\<open>on_colorAxis f s\<close> is \<^verbatim>\<open>if (mColorAxis) mColorAxis.data()->f(...)\<close>.\<close>

definition on_colorAxis :: "(QCPAxis \<Rightarrow> QCPAxis) \<Rightarrow> 'g QCPColorScale \<Rightarrow> 'g QCPColorScale" where
  "on_colorAxis f s =
     (case colorAxis s of
        None \<Rightarrow> s
      | Some (r, t) \<Rightarrow> s\<lparr>mAxisRect := Some (on_axis t f r)\<rparr>)"

text \<open>\<^term>\<open>on_axisRect f s\<close> is \<^verbatim>\<open>mAxisRect.data()->f(...)\<close>, after the null check.\<close>

definition on_axisRect ::
  "(QCPColorScaleAxisRectPrivate \<Rightarrow> QCPColorScaleAxisRectPrivate) \<Rightarrow> 'g QCPColorScale
   \<Rightarrow> 'g QCPColorScale" where
  "on_axisRect f s = s\<lparr>mAxisRect := map_option f (mAxisRect s)\<rparr>"

text \<open>
  Modelled from the spec: the property setters of \<^verbatim>\<open>QCPAxis\<close> that the color scale calls;
  each stores its argument.
\<close>

definition QCPAxis_setRange :: "QCPRange \<Rightarrow> QCPAxis \<Rightarrow> QCPAxis" where
  "QCPAxis_setRange r a = a\<lparr>mRange := r\<rparr>"

definition QCPAxis_setLabel :: "string \<Rightarrow> QCPAxis \<Rightarrow> QCPAxis" where
  "QCPAxis_setLabel str a = a\<lparr>mLabel := str\<rparr>"

definition QCPAxis_setScaleType :: "ScaleType \<Rightarrow> QCPAxis \<Rightarrow> QCPAxis" where
  "QCPAxis_setScaleType t a = a\<lparr>mScaleType := t\<rparr>"

definition QCPAxis_setScaleLogBase :: "double \<Rightarrow> QCPAxis \<Rightarrow> QCPAxis" where
  "QCPAxis_setScaleLogBase b a = a\<lparr>mScaleLogBase := b\<rparr>"

definition QCPAxis_setTicks :: "bool \<Rightarrow> QCPAxis \<Rightarrow> QCPAxis" where
  "QCPAxis_setTicks b a = a\<lparr>mTicks := b\<rparr>"

definition QCPAxis_setTickLabels :: "bool \<Rightarrow> QCPAxis \<Rightarrow> QCPAxis" where
  "QCPAxis_setTickLabels b a = a\<lparr>mTickLabels := b\<rparr>"

definition QCPAxis_setVisible :: "bool \<Rightarrow> QCPAxis \<Rightarrow> QCPAxis" where
  "QCPAxis_setVisible b a = a\<lparr>mVisible := b\<rparr>"

definition QCPAxis_grid_setVisible :: "bool \<Rightarrow> QCPAxis \<Rightarrow> QCPAxis" where
  "QCPAxis_grid_setVisible b a = a\<lparr>mGridVisible := b\<rparr>"

definition QCPAxis_setPadding :: "int \<Rightarrow> QCPAxis \<Rightarrow> QCPAxis" where
  "QCPAxis_setPadding n a = a\<lparr>mPadding := n\<rparr>"


section \<open>The color scale: operations of \<^verbatim>\<open>QCPColorScale\<close>\<close>

definition rangeDrag :: "'g QCPColorScale \<Rightarrow> bool \<times> 'g QCPColorScale" where
  "rangeDrag s =
     (case mAxisRect s of
        None \<Rightarrow> (False, qDebug ''QCPColorScale::rangeDrag'' ''internal axis rect was deleted'' s)
      | Some r \<Rightarrow>
          (case mColorAxis s of
             None \<Rightarrow> (False, qDebug ''QCPColorScale::rangeDrag'' ''internal color axis undefined'' s)
           | Some _ \<Rightarrow>
               (orientation (mAxisType s) \<in> mRangeDrag r
                \<and> (case rangeDragAxis r (orientation (mAxisType s)) of
                      None \<Rightarrow> False
                    | Some a \<Rightarrow> orientation a = orientation (mAxisType s)),
                s)))"

definition rangeZoom :: "'g QCPColorScale \<Rightarrow> bool \<times> 'g QCPColorScale" where
  "rangeZoom s =
     (case mAxisRect s of
        None \<Rightarrow> (False, qDebug ''QCPColorScale::rangeZoom'' ''internal axis rect was deleted'' s)
      | Some r \<Rightarrow>
          (case mColorAxis s of
             None \<Rightarrow> (False, qDebug ''QCPColorScale::rangeZoom'' ''internal color axis undefined'' s)
           | Some _ \<Rightarrow>
               (orientation (mAxisType s) \<in> mRangeZoom r
                \<and> (case rangeZoomAxis r (orientation (mAxisType s)) of
                      None \<Rightarrow> False
                    | Some a \<Rightarrow> orientation a = orientation (mAxisType s)),
                s)))"

text \<open>
  \<^verbatim>\<open>setType\<close>. The three transfer variables start at their defaults and are overwritten
  from the old color axis when there is one; the loop visits the four sides in the order
  of the source.
\<close>

definition setType :: "AxisType \<Rightarrow> 'g QCPColorScale \<Rightarrow> 'g QCPColorScale" where
  "setType axisType s =
     (case mAxisRect s of
        None \<Rightarrow> qDebug ''QCPColorScale::setType'' ''internal axis rect was deleted'' s
      | Some _ \<Rightarrow>
          if mAxisType s \<noteq> axisType then
            let s1 = s\<lparr>mAxisType := axisType\<rparr>;
                (rangeTransfer, labelTransfer, logBaseTransfer, s2) =
                  (case colorAxis s1 of
                     None \<Rightarrow> (QCPRange_ctor (Finite 0) (Finite 6), [], Finite 10, s1)
                   | Some (r, old) \<Rightarrow>
                       (mRange (axes r old), mLabel (axes r old), mScaleLogBase (axes r old),
                        disconnect old scaleTypeChanged setDataScaleType_slot
                          (disconnect old rangeChanged setDataRange_slot
                            (on_colorAxis (QCPAxis_setLabel []) s1))));
                s3 = foldl
                       (\<lambda>st type.
                          on_axisRect (on_axis type (QCPAxis_setTickLabels (type = mAxisType st)))
                            (on_axisRect (on_axis type (QCPAxis_setTicks (type = mAxisType st))) st))
                       s2 [atLeft, atRight, atBottom, atTop];
                s4 = s3\<lparr>mColorAxis := Some (mAxisType s3)\<rparr>;
                s5 = on_colorAxis (QCPAxis_setRange rangeTransfer) s4;
                s6 = on_colorAxis (QCPAxis_setLabel labelTransfer) s5;
                s7 = on_colorAxis (QCPAxis_setScaleLogBase logBaseTransfer) s6;
                s8 = connect (mAxisType s7) rangeChanged setDataRange_slot s7;
                s9 = connect (mAxisType s8) scaleTypeChanged setDataScaleType_slot s8
            in on_axisRect
                 (setRangeDragAxes
                    (if orientation (mAxisType s9) = Horizontal then mColorAxis s9 else None)
                    (if orientation (mAxisType s9) = Vertical then mColorAxis s9 else None))
                 s9
          else s)"

definition setDataRange :: "QCPRange \<Rightarrow> 'g QCPColorScale \<Rightarrow> 'g QCPColorScale" where
  "setDataRange dataRange s =
     (if double_ne (lower (mDataRange s)) (lower dataRange)
         \<or> double_ne (upper (mDataRange s)) (upper dataRange) then
        let s1 = s\<lparr>mDataRange := dataRange\<rparr>;
            s2 = on_colorAxis (QCPAxis_setRange (mDataRange s1)) s1
        in emit (dataRangeChanged (mDataRange s2)) s2
      else s)"

text \<open>
  \<^verbatim>\<open>setDataScaleType\<close>; \<^verbatim>\<open>QCPRange::sanitizedForLogScale\<close> of the absent
  \<^verbatim>\<open>axis/range.h\<close> is its first parameter.
\<close>

definition setDataScaleType ::
  "(QCPRange \<Rightarrow> QCPRange) \<Rightarrow> ScaleType \<Rightarrow> 'g QCPColorScale \<Rightarrow> 'g QCPColorScale" where
  "setDataScaleType sanitizedForLogScale scaleType s =
     (if mDataScaleType s \<noteq> scaleType then
        let s1 = s\<lparr>mDataScaleType := scaleType\<rparr>;
            s2 = on_colorAxis (QCPAxis_setScaleType (mDataScaleType s1)) s1;
            s3 = (if mDataScaleType s2 = stLogarithmic
                  then setDataRange (sanitizedForLogScale (mDataRange s2)) s2 else s2)
        in emit (dataScaleTypeChanged (mDataScaleType s3)) s3
      else s)"

definition setGradient :: "'g \<Rightarrow> 'g QCPColorScale \<Rightarrow> 'g QCPColorScale" where
  "setGradient gradient s =
     (if mGradient s \<noteq> gradient then
        let s1 = s\<lparr>mGradient := gradient\<rparr>;
            s2 = on_axisRect (\<lambda>r. r\<lparr>mGradientImageInvalidated := True\<rparr>) s1
        in emit (gradientChanged (mGradient s2)) s2
      else s)"

definition setBarWidth :: "int \<Rightarrow> 'g QCPColorScale \<Rightarrow> 'g QCPColorScale" where
  "setBarWidth width s = s\<lparr>mBarWidth := width\<rparr>"

definition setRangeDrag :: "bool \<Rightarrow> 'g QCPColorScale \<Rightarrow> 'g QCPColorScale" where
  "setRangeDrag enabled s =
     (case mAxisRect s of
        None \<Rightarrow> qDebug ''QCPColorScale::setRangeDrag'' ''internal axis rect was deleted'' s
      | Some _ \<Rightarrow>
          if enabled
          then on_axisRect (\<lambda>r. r\<lparr>mRangeDrag := {orientation (mAxisType s)}\<rparr>) s
          else on_axisRect (\<lambda>r. r\<lparr>mRangeDrag := {}\<rparr>) s)"

definition setRangeZoom :: "bool \<Rightarrow> 'g QCPColorScale \<Rightarrow> 'g QCPColorScale" where
  "setRangeZoom enabled s =
     (case mAxisRect s of
        None \<Rightarrow> qDebug ''QCPColorScale::setRangeZoom'' ''internal axis rect was deleted'' s
      | Some _ \<Rightarrow>
          if enabled
          then on_axisRect (\<lambda>r. r\<lparr>mRangeZoom := {orientation (mAxisType s)}\<rparr>) s
          else on_axisRect (\<lambda>r. r\<lparr>mRangeZoom := {}\<rparr>) s)"

text \<open>
  Modelled from the spec: \<^verbatim>\<open>setMaximumSize\<close> and \<^verbatim>\<open>setMinimumSize\<close> of
  \<^verbatim>\<open>QCPLayoutElement\<close>; each stores the size.
\<close>

definition setMaximumSize :: "int \<Rightarrow> int \<Rightarrow> 'g QCPColorScale \<Rightarrow> 'g QCPColorScale" where
  "setMaximumSize w h s = s\<lparr>leMaximumSize := \<lparr>size_width = w, size_height = h\<rparr>\<rparr>"

definition setMinimumSize :: "int \<Rightarrow> int \<Rightarrow> 'g QCPColorScale \<Rightarrow> 'g QCPColorScale" where
  "setMinimumSize w h s = s\<lparr>leMinimumSize := \<lparr>size_width = w, size_height = h\<rparr>\<rparr>"

text \<open>
  \<^verbatim>\<open>update(phase)\<close>. The base class's \<^verbatim>\<open>QCPLayoutElement::update\<close> is the first
  parameter; it runs before the pointer is looked at.
\<close>

definition update ::
  "(UpdatePhase \<Rightarrow> 'g QCPColorScale \<Rightarrow> 'g QCPColorScale) \<Rightarrow> ('m, 'w) QCPAxisRect_api
   \<Rightarrow> UpdatePhase \<Rightarrow> 'g QCPColorScale \<Rightarrow> 'g QCPColorScale" where
  "update QCPLayoutElement_update rapi phase s =
     (let s1 = QCPLayoutElement_update phase s in
      (case mAxisRect s1 of
         None \<Rightarrow> qDebug ''QCPColorScale::update'' ''internal axis rect was deleted'' s1
       | Some r \<Rightarrow>
           (let r1 = QCPAxisRect_update rapi phase r;
                s2 = s1\<lparr>mAxisRect := Some r1\<rparr>;
                am = mMargins r1
            in (case phase of
                  upMargins \<Rightarrow>
                    (if mAxisType s2 = atBottom \<or> mAxisType s2 = atTop then
                       setMinimumSize 0
                         (mBarWidth s2 + m_top am + m_bottom am
                            + m_top (leMargins s2) + m_bottom (leMargins s2))
                         (setMaximumSize QWIDGETSIZE_MAX
                            (mBarWidth s2 + m_top am + m_bottom am
                               + m_top (leMargins s2) + m_bottom (leMargins s2)) s2)
                     else
                       setMinimumSize
                         (mBarWidth s2 + m_left am + m_right am
                            + m_left (leMargins s2) + m_right (leMargins s2)) 0
                         (setMaximumSize
                            (mBarWidth s2 + m_left am + m_right am
                               + m_left (leMargins s2) + m_right (leMargins s2))
                            QWIDGETSIZE_MAX s2))
                | upLayout \<Rightarrow> on_axisRect (QCPAxisRect_setOuterRect rapi (leRect s2)) s2
                | upPreparation \<Rightarrow> s2))))"

definition mousePressEvent ::
  "('m, 'w) QCPAxisRect_api \<Rightarrow> 'm \<Rightarrow> 'g QCPColorScale \<Rightarrow> 'g QCPColorScale" where
  "mousePressEvent rapi event s =
     (case mAxisRect s of
        None \<Rightarrow> qDebug ''QCPColorScale::mousePressEvent'' ''internal axis rect was deleted'' s
      | Some _ \<Rightarrow> on_axisRect (QCPAxisRect_mousePressEvent rapi event) s)"

definition mouseMoveEvent ::
  "('m, 'w) QCPAxisRect_api \<Rightarrow> 'm \<Rightarrow> 'g QCPColorScale \<Rightarrow> 'g QCPColorScale" where
  "mouseMoveEvent rapi event s =
     (case mAxisRect s of
        None \<Rightarrow> qDebug ''QCPColorScale::mouseMoveEvent'' ''internal axis rect was deleted'' s
      | Some _ \<Rightarrow> on_axisRect (QCPAxisRect_mouseMoveEvent rapi event) s)"

definition mouseReleaseEvent ::
  "('m, 'w) QCPAxisRect_api \<Rightarrow> 'm \<Rightarrow> 'g QCPColorScale \<Rightarrow> 'g QCPColorScale" where
  "mouseReleaseEvent rapi event s =
     (case mAxisRect s of
        None \<Rightarrow> qDebug ''QCPColorScale::mouseReleaseEvent'' ''internal axis rect was deleted'' s
      | Some _ \<Rightarrow> on_axisRect (QCPAxisRect_mouseReleaseEvent rapi event) s)"

definition wheelEvent ::
  "('m, 'w) QCPAxisRect_api \<Rightarrow> 'w \<Rightarrow> 'g QCPColorScale \<Rightarrow> 'g QCPColorScale" where
  "wheelEvent rapi event s =
     (case mAxisRect s of
        None \<Rightarrow> qDebug ''QCPColorScale::wheelEvent'' ''internal axis rect was deleted'' s
      | Some _ \<Rightarrow> on_axisRect (QCPAxisRect_wheelEvent rapi event) s)"


section \<open>The color scale: operations of \<^verbatim>\<open>QCPColorScaleAxisRectPrivate\<close>\<close>

text \<open>
  The methods of the axis rect read the color scale through \<^verbatim>\<open>mParentColorScale\<close>: they
  take the parent's state as an argument and return the axis rect they leave behind.

  The constructor runs after the one of \<^verbatim>\<open>QCPAxisRect\<close>, whose result is the parameter
  \<^term>\<open>base\<close>. The connections it makes among the axes and to the parent's layer are
  toolkit wiring and leave no trace in the state.
\<close>

definition QCPColorScaleAxisRectPrivate_ctor ::
  "QCPColorScaleAxisRectPrivate \<Rightarrow> QCPColorScaleAxisRectPrivate" where
  "QCPColorScaleAxisRectPrivate_ctor base =
     (let r1 = base\<lparr>mGradientImageInvalidated := True, mGradientImage := QImage_null\<rparr>;
          r2 = r1\<lparr>mMinimumMargins := \<lparr>m_left = 0, m_top = 0, m_right = 0, m_bottom = 0\<rparr>\<rparr>
      in foldl
           (\<lambda>r type.
              on_axis type (QCPAxis_setPadding 0)
                (on_axis type (QCPAxis_grid_setVisible False)
                  (on_axis type (QCPAxis_setVisible True) r)))
           r2 [atBottom, atTop, atLeft, atRight])"

text \<open>
  \<^verbatim>\<open>QVector<double> data(n)\<close> needs \<^verbatim>\<open>n >= 0\<close>; the toolkit asserts it. That is the one
  way \<^verbatim>\<open>updateGradientImage\<close> can fail.
\<close>

datatype failure = QVector_negative_size

text \<open>\<^verbatim>\<open>for (int i=0; i<n; ++i) data[i] = i;\<close>\<close>

function fill_data :: "int \<Rightarrow> int \<Rightarrow> double list \<Rightarrow> double list" where
  "fill_data i n data =
     (if i < n then fill_data (i + 1) n (data[nat i := double_of_int i]) else data)"
  by pat_completeness auto
termination
  by (relation "measure (\<lambda>(i, n, data). nat (n - i))") auto

text \<open>\<^verbatim>\<open>for (int y=1; y<h; ++y) memcpy(pixels.at(y), pixels.first(), n*sizeof(QRgb));\<close>\<close>

function copy_first_line :: "int \<Rightarrow> int \<Rightarrow> int \<Rightarrow> QRgb option list list \<Rightarrow> QRgb option list list" where
  "copy_first_line y h n pixels =
     (if y < h
      then copy_first_line (y + 1) h n (pixels[nat y := memcpy (pixels ! nat y) (pixels ! 0) n])
      else pixels)"
  by pat_completeness auto
termination
  by (relation "measure (\<lambda>(y, h, n, pixels). nat (h - y))") auto

text \<open>\<^verbatim>\<open>for (int x=0; x<w; ++x) pixels[x] = lineColor;\<close>\<close>

function fill_line :: "int \<Rightarrow> int \<Rightarrow> QRgb \<Rightarrow> QRgb option list \<Rightarrow> QRgb option list" where
  "fill_line x w lineColor pixels =
     (if x < w then fill_line (x + 1) w lineColor (pixels[nat x := Some lineColor]) else pixels)"
  by pat_completeness auto
termination
  by (relation "measure (\<lambda>(x, w, lineColor, pixels). nat (w - x))") auto

text \<open>The loop over the rows of a vertical color scale.\<close>

function fill_lines ::
  "'g QCPColorGradient_api \<Rightarrow> 'g \<Rightarrow> double list \<Rightarrow> int \<Rightarrow> int \<Rightarrow> int \<Rightarrow> int
   \<Rightarrow> QRgb option list list \<Rightarrow> QRgb option list list" where
  "fill_lines api g data n y h w lines =
     (if y < h
      then fill_lines api g data n (y + 1) h w
             (lines[nat y :=
                fill_line 0 w
                  (color api g (data ! nat (h - 1 - y))
                     (QCPRange_ctor (Finite 0) (double_of_int (n - 1))))
                  (lines ! nat y)])
      else lines)"
  by pat_completeness auto
termination
  by (relation "measure (\<lambda>(api, g, data, n, y, h, w, lines). nat (h - y))") auto

text \<open>
  \<^verbatim>\<open>updateGradientImage\<close>. A null image has no scan lines; \<^verbatim>\<open>scanLine(y)\<close> is then a
  null pointer, to which \<^verbatim>\<open>colorize\<close> writes nothing.
\<close>

definition updateGradientImage ::
  "'g QCPColorGradient_api \<Rightarrow> 'g QCPColorScale \<Rightarrow> QCPColorScaleAxisRectPrivate
   \<Rightarrow> failure + QCPColorScaleAxisRectPrivate" where
  "updateGradientImage api parent r =
     (if isEmpty (mRect r) then Inr r
      else
        let n = levelCount api (mGradient parent) in
        if n < 0 then Inl QVector_negative_size
        else
          let data = fill_data 0 n (replicate (nat n) (Finite 0)) in
          if mAxisType parent = atBottom \<or> mAxisType parent = atTop then
            let w = n;
                h = rect_height (mRect r);
                img = QImage_ctor w h;
                first = (case scanLines img of
                           [] \<Rightarrow> []
                         | l # ls \<Rightarrow>
                             colorize_into api (mGradient parent) data
                               (QCPRange_ctor (Finite 0) (double_of_int (n - 1))) l n # ls)
            in Inr (r\<lparr>mGradientImage := img\<lparr>scanLines := copy_first_line 1 h n first\<rparr>,
                      mGradientImageInvalidated := False\<rparr>)
          else
            let w = rect_width (mRect r);
                h = n;
                img = QImage_ctor w h
            in Inr (r\<lparr>mGradientImage :=
                        img\<lparr>scanLines :=
                          fill_lines api (mGradient parent) data n 0 h w (scanLines img)\<rparr>,
                      mGradientImageInvalidated := False\<rparr>))"


text \<open>
  The constructor of \<^verbatim>\<open>QCPColorScale\<close>. \<^term>\<open>base\<close> is the object as the constructor of
  \<^verbatim>\<open>QCPLayoutElement\<close> and the default constructors of the members outside the
  initialiser list (\<^verbatim>\<open>mDataRange\<close>, \<^verbatim>\<open>mGradient\<close>) leave it, \<^verbatim>\<open>mColorAxis\<close> being null;
  \<^term>\<open>baseRect\<close> is the axis rect as the constructor of \<^verbatim>\<open>QCPAxisRect\<close> leaves it.
\<close>

definition QCPColorScale_ctor ::
  "'g QCPColorScale \<Rightarrow> QCPColorScaleAxisRectPrivate \<Rightarrow> 'g QCPColorScale" where
  "QCPColorScale_ctor base baseRect =
     (let s0 = base\<lparr>mAxisType := atTop, mDataScaleType := stLinear, mBarWidth := 20,
                    mAxisRect := Some (QCPColorScaleAxisRectPrivate_ctor baseRect),
                    mColorAxis := None\<rparr>;
          s1 = s0\<lparr>leMinimumMargins := \<lparr>m_left = 0, m_top = 6, m_right = 0, m_bottom = 6\<rparr>\<rparr>;
          s2 = setType atRight s1
      in setDataRange (QCPRange_ctor (Finite 0) (Finite 6)) s2)"


section \<open>The gradient image as a cache\<close>

text \<open>
  The image that \<^verbatim>\<open>updateGradientImage\<close> stores, as a function of what it reads: the
  gradient, the axis type and the rect. It is the computation of \<^term>\<open>updateGradientImage\<close>
  between the two guards and the final assignment to the flag.
\<close>

definition gradient_image ::
  "'g QCPColorGradient_api \<Rightarrow> 'g \<Rightarrow> AxisType \<Rightarrow> QRect \<Rightarrow> QImage" where
  "gradient_image api g axisType rect =
     (let n = levelCount api g;
          data = fill_data 0 n (replicate (nat n) (Finite 0))
      in if axisType = atBottom \<or> axisType = atTop then
           let img = QImage_ctor n (rect_height rect);
               first = (case scanLines img of
                          [] \<Rightarrow> []
                        | l # ls \<Rightarrow>
                            colorize_into api g data
                              (QCPRange_ctor (Finite 0) (double_of_int (n - 1))) l n # ls)
           in img\<lparr>scanLines := copy_first_line 1 (rect_height rect) n first\<rparr>
         else
           let img = QImage_ctor (rect_width rect) n
           in img\<lparr>scanLines := fill_lines api g data n 0 n (rect_width rect) (scanLines img)\<rparr>)"









text \<open>The axis on side \<^term>\<open>a\<close> of the axis rect of a color scale, when there is one.\<close>

definition axis_of :: "'g QCPColorScale \<Rightarrow> AxisType \<Rightarrow> QCPAxis option" where
  "axis_of s a = map_option (\<lambda>r. axes r a) (mAxisRect s)"


section \<open>Example objects\<close>

text \<open>
  A gradient is its number of levels here; level 0 has the colour 10, level 1 the colour
  11, every other level 12, and \<^verbatim>\<open>colorize\<close> writes 100 plus the index.
\<close>

definition example_api :: "nat QCPColorGradient_api" where
  "example_api =
     \<lparr>levelCount = int,
      color = (\<lambda>g x rng. if x = Finite 0 then 10 else if x = Finite 1 then 11 else 12),
      colorize = (\<lambda>g data rng n i. 100 + of_nat i)\<rparr>"

definition example_axis :: QCPAxis where
  "example_axis =
     \<lparr>mRange = \<lparr>lower = Finite 1, upper = Finite 5\<rparr>, mRangeReversed = False,
      mLabel = ''z'', mScaleType = stLinear, mScaleLogBase = Finite 2, mTicks = True, mTickLabels = True,
      mVisible = False, mGridVisible = True, mPadding = 5\<rparr>"

definition example_axisRect :: QCPColorScaleAxisRectPrivate where
  "example_axisRect =
     \<lparr>axes = (\<lambda>t. example_axis), mRangeDrag = {}, mRangeZoom = {},
      mRangeDragHorzAxis = None, mRangeDragVertAxis = None,
      mRangeZoomHorzAxis = None, mRangeZoomVertAxis = None,
      mRect = \<lparr>rect_x = 0, rect_y = 0, rect_width = 3, rect_height = 2\<rparr>,
      mMargins = \<lparr>m_left = 0, m_top = 0, m_right = 0, m_bottom = 0\<rparr>,
      mMinimumMargins = \<lparr>m_left = 0, m_top = 0, m_right = 0, m_bottom = 0\<rparr>,
      mGradientImageInvalidated = True, mGradientImage = QImage_null\<rparr>"

definition example_scale :: "nat QCPColorScale" where
  "example_scale =
     \<lparr>mAxisType = atRight, mDataRange = \<lparr>lower = Finite 0, upper = Finite 6\<rparr>,
      mDataScaleType = stLinear, mGradient = 2, mBarWidth = 20, mAxisRect = Some example_axisRect,
      mColorAxis = Some atRight,
      leMargins = \<lparr>m_left = 0, m_top = 0, m_right = 0, m_bottom = 0\<rparr>,
      leMinimumMargins = \<lparr>m_left = 0, m_top = 6, m_right = 0, m_bottom = 6\<rparr>,
      leRect = \<lparr>rect_x = 0, rect_y = 0, rect_width = 30, rect_height = 2\<rparr>,
      leMinimumSize = \<lparr>size_width = 0, size_height = 0\<rparr>,
      leMaximumSize = \<lparr>size_width = QWIDGETSIZE_MAX, size_height = QWIDGETSIZE_MAX\<rparr>,
      emitted = [], connections = [], debugLog = []\<rparr>"



text \<open>
  The example color scale after its axis rect was deleted; an axis rect whose handlers do
  nothing; and a layout update that, in the margin phase, raises each margin to the minimum
  margin, as the update of a layout element with automatic margins does.
\<close>

definition example_deleted :: "nat QCPColorScale" where
  "example_deleted = example_scale\<lparr>mAxisRect := None, mColorAxis := None\<rparr>"

definition example_rapi :: "(unit, unit) QCPAxisRect_api" where
  "example_rapi =
     \<lparr>QCPAxisRect_update = (\<lambda>phase r. r),
      QCPAxisRect_setOuterRect = (\<lambda>rect r. r\<lparr>mRect := rect\<rparr>),
      QCPAxisRect_mousePressEvent = (\<lambda>e r. r),
      QCPAxisRect_mouseMoveEvent = (\<lambda>e r. r),
      QCPAxisRect_mouseReleaseEvent = (\<lambda>e r. r),
      QCPAxisRect_wheelEvent = (\<lambda>e r. r)\<rparr>"

definition example_layout_update :: "UpdatePhase \<Rightarrow> 'g QCPColorScale \<Rightarrow> 'g QCPColorScale" where
  "example_layout_update phase s =
     (if phase = upMargins
      then s\<lparr>leMargins :=
               \<lparr>m_left = max (m_left (leMargins s)) (m_left (leMinimumMargins s)),
                m_top = max (m_top (leMargins s)) (m_top (leMinimumMargins s)),
                m_right = max (m_right (leMargins s)) (m_right (leMinimumMargins s)),
                m_bottom = max (m_bottom (leMargins s)) (m_bottom (leMinimumMargins s))\<rparr>\<rparr>
      else s)"


text \<open>
  A range with a NaN as its lower bound, and the example color scale with the data range
  from 0 to 0.
\<close>

definition example_nan_range :: QCPRange where
  "example_nan_range = \<lparr>lower = NaN, upper = Finite 1\<rparr>"



section \<open>Properties of the comparison operators\<close>

lemma double_le_NaN: "double_le a b \<Longrightarrow> a \<noteq> NaN \<and> b \<noteq> NaN"
  by (cases a; cases b) (simp_all add: double_le_def double_eq_def)

lemma double_le_refl: "a \<noteq> NaN \<Longrightarrow> double_le a a"
  by (simp add: double_le_def double_eq_def)

lemma double_less_trans: "double_less a b \<Longrightarrow> double_less b c \<Longrightarrow> double_less a c"
  by (cases a; cases b; cases c) simp_all

lemma double_le_trans: "double_le a b \<Longrightarrow> double_le b c \<Longrightarrow> double_le a c"
  by (auto simp: double_le_def double_eq_def dest: double_less_trans)

lemma double_less_imp_le: "double_less a b \<Longrightarrow> double_le a b"
  by (simp add: double_le_def)

lemma double_not_less: "a \<noteq> NaN \<Longrightarrow> b \<noteq> NaN \<Longrightarrow> \<not> double_less a b \<Longrightarrow> double_le b a"
  by (cases a; cases b) (auto simp: double_le_def double_eq_def)

lemma double_le_not_less: "double_le a b \<Longrightarrow> \<not> double_less b a"
  by (cases a; cases b) (auto simp: double_le_def double_eq_def)

lemma double_eq_refl: "double_eq a a = (a \<noteq> NaN)"
  by (simp add: double_eq_def)


section \<open>The keys of the data structs\<close>

text \<open>
  C7: for both structs the sort key is the main key: \<^verbatim>\<open>sortKeyIsMainKey()\<close> is true, and
  \<^verbatim>\<open>sortKey()\<close> and \<^verbatim>\<open>mainKey()\<close> return the field \<^verbatim>\<open>key\<close> of every datum;
  \<^verbatim>\<open>fromSortKey(k)\<close> has the key \<^verbatim>\<open>k\<close> and 0 in every other field, for every double
  \<^verbatim>\<open>k\<close>. As \<^verbatim>\<open>==\<close> compares them, \<^verbatim>\<open>sortKey() == mainKey()\<close>,
  \<^verbatim>\<open>mainKey() == key\<close> and \<^verbatim>\<open>fromSortKey(k).sortKey() == k\<close> hold exactly when the key
  is not a NaN.
\<close>

theorem sortKey_is_mainKey_roundtrip:
  "QCPFinancialData_sortKeyIsMainKey
   \<and> QCPFinancialData_sortKey d = key d
   \<and> QCPFinancialData_mainKey d = key d
   \<and> double_eq (QCPFinancialData_sortKey d) (QCPFinancialData_mainKey d) = (key d \<noteq> NaN)
   \<and> double_eq (QCPFinancialData_mainKey d) (key d) = (key d \<noteq> NaN)
   \<and> key (QCPFinancialData_fromSortKey k) = k
   \<and> double_eq (QCPFinancialData_sortKey (QCPFinancialData_fromSortKey k)) k = (k \<noteq> NaN)
   \<and> open (QCPFinancialData_fromSortKey k) = Finite 0
   \<and> high (QCPFinancialData_fromSortKey k) = Finite 0
   \<and> low (QCPFinancialData_fromSortKey k) = Finite 0
   \<and> close (QCPFinancialData_fromSortKey k) = Finite 0
   \<and> QCPGraphData_sortKeyIsMainKey
   \<and> QCPGraphData_sortKey g = key' g
   \<and> QCPGraphData_mainKey g = key' g
   \<and> double_eq (QCPGraphData_sortKey g) (QCPGraphData_mainKey g) = (key' g \<noteq> NaN)
   \<and> double_eq (QCPGraphData_mainKey g) (key' g) = (key' g \<noteq> NaN)
   \<and> key' (QCPGraphData_fromSortKey k) = k
   \<and> double_eq (QCPGraphData_sortKey (QCPGraphData_fromSortKey k)) k = (k \<noteq> NaN)
   \<and> value' (QCPGraphData_fromSortKey k) = Finite 0"
  by (simp add: QCPFinancialData_sortKeyIsMainKey_def QCPFinancialData_sortKey_def
      QCPFinancialData_mainKey_def QCPFinancialData_fromSortKey_def QCPFinancialData_ctor_def
      QCPGraphData_sortKeyIsMainKey_def QCPGraphData_sortKey_def QCPGraphData_mainKey_def
      QCPGraphData_fromSortKey_def QCPGraphData_ctor_def double_eq_refl)

text \<open>
  For a NaN key the comparisons are false, a NaN being unequal to itself:
  \<^verbatim>\<open>fromSortKey(k).sortKey() == k\<close> fails for both structs, and so does
  \<^verbatim>\<open>sortKey() == mainKey()\<close> on a datum whose key is a NaN.
\<close>

theorem roundtrip_fails_for_NaN:
  "\<not> double_eq (QCPFinancialData_sortKey (QCPFinancialData_fromSortKey NaN)) NaN
   \<and> \<not> double_eq (QCPGraphData_sortKey (QCPGraphData_fromSortKey NaN)) NaN
   \<and> \<not> double_eq (QCPGraphData_sortKey \<lparr>key' = NaN, value' = Finite 1\<rparr>)
          (QCPGraphData_mainKey \<lparr>key' = NaN, value' = Finite 1\<rparr>)"
  by (simp add: double_eq_def QCPFinancialData_sortKey_def QCPFinancialData_fromSortKey_def
      QCPFinancialData_ctor_def QCPGraphData_sortKey_def QCPGraphData_mainKey_def
      QCPGraphData_fromSortKey_def QCPGraphData_ctor_def)

theorem sortKey_is_mainKey_roundtrip_witness:
  "double_eq (QCPFinancialData_sortKey (QCPFinancialData_fromSortKey (Finite 3))) (Finite 3)
   \<and> double_eq (QCPGraphData_sortKey (QCPGraphData_fromSortKey PlusInf)) PlusInf
   \<and> double_eq (QCPGraphData_sortKey \<lparr>key' = Finite 2, value' = NaN\<rparr>)
        (QCPGraphData_mainKey \<lparr>key' = Finite 2, value' = NaN\<rparr>)
   \<and> QCPFinancialData_fromSortKey (Finite 3)
       = \<lparr>key = Finite 3, open = Finite 0, high = Finite 0, low = Finite 0, close = Finite 0\<rparr>"
  using sortKey_is_mainKey_roundtrip
      [of "QCPFinancialData_fromSortKey (Finite 3)" "Finite 3" "\<lparr>key' = Finite 2, value' = NaN\<rparr>"]
    sortKey_is_mainKey_roundtrip
      [of "QCPFinancialData_fromSortKey (Finite 3)" PlusInf "\<lparr>key' = Finite 2, value' = NaN\<rparr>"]
  by (simp add: QCPFinancialData_fromSortKey_def QCPFinancialData_ctor_def)


section \<open>The value range of a financial bar\<close>

lemma valueRange_bounds:
  "bar_invariant d \<Longrightarrow> QCPFinancialData_valueRange d = \<lparr>lower = low d, upper = high d\<rparr>"
proof -
  assume "bar_invariant d"
  then have "double_le (low d) (high d)"
    by (auto simp: bar_invariant_def intro: double_le_trans)
  then have "\<not> double_greater (low d) (high d)"
    by (simp add: double_greater_def double_le_not_less)
  then show ?thesis
    by (simp add: QCPFinancialData_valueRange_def QCPRange_ctor_def)
qed

text \<open>
  C3: \<^verbatim>\<open>valueRange()\<close> returns \<^verbatim>\<open>QCPRange(low, high)\<close> whatever the datum is (it
  checks nothing); for a datum that satisfies the bar invariant this range has the bounds
  \<^verbatim>\<open>low\<close> and \<^verbatim>\<open>high\<close>, contains open, high, low and close, and lies inside every
  range that contains the four.
\<close>

theorem valueRange_smallest:
  "QCPFinancialData_valueRange d = QCPRange_ctor (low d) (high d)
   \<and> (bar_invariant d \<longrightarrow>
        QCPFinancialData_valueRange d = \<lparr>lower = low d, upper = high d\<rparr>
      \<and> contains (QCPFinancialData_valueRange d) (open d)
      \<and> contains (QCPFinancialData_valueRange d) (high d)
      \<and> contains (QCPFinancialData_valueRange d) (low d)
      \<and> contains (QCPFinancialData_valueRange d) (close d)
      \<and> (\<forall>r. contains r (open d) \<and> contains r (high d)
               \<and> contains r (low d) \<and> contains r (close d)
             \<longrightarrow> double_le (lower r) (lower (QCPFinancialData_valueRange d))
                 \<and> double_le (upper (QCPFinancialData_valueRange d)) (upper r)))"
proof (intro conjI impI)
  show "QCPFinancialData_valueRange d = QCPRange_ctor (low d) (high d)"
    by (simp add: QCPFinancialData_valueRange_def)
next
  assume inv: "bar_invariant d"
  then have b: "QCPFinancialData_valueRange d = \<lparr>lower = low d, upper = high d\<rparr>"
    by (rule valueRange_bounds)
  from inv have le: "double_le (low d) (open d)" "double_le (open d) (high d)"
    "double_le (low d) (close d)" "double_le (close d) (high d)"
    by (simp_all add: bar_invariant_def)
  then have lh: "double_le (low d) (high d)"
    by (blast intro: double_le_trans)
  from le have nn: "low d \<noteq> NaN" "high d \<noteq> NaN"
    by (auto dest: double_le_NaN)
  show "QCPFinancialData_valueRange d = \<lparr>lower = low d, upper = high d\<rparr>"
    by (rule b)
  show "contains (QCPFinancialData_valueRange d) (open d)"
    using le by (simp add: b contains_def)
  show "contains (QCPFinancialData_valueRange d) (high d)"
    using lh nn by (simp add: b contains_def double_le_refl)
  show "contains (QCPFinancialData_valueRange d) (low d)"
    using lh nn by (simp add: b contains_def double_le_refl)
  show "contains (QCPFinancialData_valueRange d) (close d)"
    using le by (simp add: b contains_def)
  show "\<forall>r. contains r (open d) \<and> contains r (high d)
               \<and> contains r (low d) \<and> contains r (close d)
             \<longrightarrow> double_le (lower r) (lower (QCPFinancialData_valueRange d))
                 \<and> double_le (upper (QCPFinancialData_valueRange d)) (upper r)"
    by (simp add: b contains_def)
qed

theorem valueRange_smallest_witness:
  "bar_invariant
     \<lparr>key = Finite 1, open = Finite 2, high = Finite 4, low = Finite 1, close = Finite 3\<rparr>
   \<and> QCPFinancialData_valueRange
       \<lparr>key = Finite 1, open = Finite 2, high = Finite 4, low = Finite 1, close = Finite 3\<rparr>
       = \<lparr>lower = Finite 1, upper = Finite 4\<rparr>
   \<and> contains (QCPFinancialData_valueRange
       \<lparr>key = Finite 1, open = Finite 2, high = Finite 4, low = Finite 1, close = Finite 3\<rparr>)
       (Finite 2)
   \<and> contains (QCPFinancialData_valueRange
       \<lparr>key = Finite 1, open = Finite 2, high = Finite 4, low = Finite 1, close = Finite 3\<rparr>)
       (Finite 3)
   \<and> contains \<lparr>lower = Finite 0, upper = Finite 5\<rparr> (Finite 2)
   \<and> contains \<lparr>lower = Finite 0, upper = Finite 5\<rparr> (Finite 4)
   \<and> contains \<lparr>lower = Finite 0, upper = Finite 5\<rparr> (Finite 1)
   \<and> contains \<lparr>lower = Finite 0, upper = Finite 5\<rparr> (Finite 3)
   \<and> double_le (lower \<lparr>lower = Finite 0, upper = Finite 5\<rparr>)
       (lower (QCPFinancialData_valueRange
          \<lparr>key = Finite 1, open = Finite 2, high = Finite 4, low = Finite 1, close = Finite 3\<rparr>))
   \<and> double_le
       (upper (QCPFinancialData_valueRange
          \<lparr>key = Finite 1, open = Finite 2, high = Finite 4, low = Finite 1, close = Finite 3\<rparr>))
       (upper \<lparr>lower = Finite 0, upper = Finite 5\<rparr>)"
proof -
  let ?d = "\<lparr>key = Finite 1, open = Finite 2, high = Finite 4, low = Finite 1, close = Finite 3\<rparr>"
  let ?r = "\<lparr>lower = Finite 0, upper = Finite 5\<rparr>"
  have inv: "bar_invariant ?d"
    by (simp add: bar_invariant_def double_le_def)
  have r: "contains ?r (open ?d) \<and> contains ?r (high ?d)
           \<and> contains ?r (low ?d) \<and> contains ?r (close ?d)"
    by (simp add: contains_def double_le_def)
  from valueRange_smallest [of ?d] inv
  have eq: "QCPFinancialData_valueRange ?d = \<lparr>lower = low ?d, upper = high ?d\<rparr>"
    and c1: "contains (QCPFinancialData_valueRange ?d) (open ?d)"
    and c2: "contains (QCPFinancialData_valueRange ?d) (close ?d)"
    and least: "\<forall>r. contains r (open ?d) \<and> contains r (high ?d)
                   \<and> contains r (low ?d) \<and> contains r (close ?d)
                 \<longrightarrow> double_le (lower r) (lower (QCPFinancialData_valueRange ?d))
                     \<and> double_le (upper (QCPFinancialData_valueRange ?d)) (upper r)"
    by blast+
  from least r have "double_le (lower ?r) (lower (QCPFinancialData_valueRange ?d))
                     \<and> double_le (upper (QCPFinancialData_valueRange ?d)) (upper ?r)"
    by blast
  with inv eq c1 c2 r show ?thesis
    by simp
qed


section \<open>The containers stay sorted\<close>

lemma set_insert_by_key: "set (insert_by_key f d xs) = insert d (set xs)"
  by (induction xs) auto

lemma set_sort_by_key: "set (sort_by_key f xs) = set xs"
  by (induction xs) (simp_all add: sort_by_key_def set_insert_by_key)

lemma set_merge_by_key: "set (merge_by_key f xs ys) = set xs \<union> set ys"
  by (induction f xs ys rule: merge_by_key.induct) auto

lemma sorted_insert_by_key:
  "sorted_by_key f xs \<Longrightarrow> f d \<noteq> NaN \<Longrightarrow> ordinary_keys f xs \<Longrightarrow>
   sorted_by_key f (insert_by_key f d xs)"
proof (induction xs)
  case Nil
  then show ?case
    by (simp add: sorted_by_key_def)
next
  case (Cons x xs)
  from Cons.prems have x: "f x \<noteq> NaN" and xs: "ordinary_keys f xs"
    and sx: "sorted_by_key f xs" and le: "\<forall>y \<in> set xs. double_le (f x) (f y)"
    by (auto simp: ordinary_keys_def sorted_by_key_def)
  show ?case
  proof (cases "double_less (f x) (f d)")
    case True
    from Cons.IH [OF sx Cons.prems(2) xs] le True show ?thesis
      by (simp add: sorted_by_key_def set_insert_by_key double_less_imp_le)
  next
    case False
    with x Cons.prems(2) have dx: "double_le (f d) (f x)"
      by (simp add: double_not_less)
    with le have "\<forall>y \<in> set xs. double_le (f d) (f y)"
      by (blast intro: double_le_trans)
    with False dx Cons.prems(1) show ?thesis
      by (simp add: sorted_by_key_def)
  qed
qed

lemma ordinary_insert_by_key:
  "ordinary_keys f (insert_by_key f d xs) = (f d \<noteq> NaN \<and> ordinary_keys f xs)"
  by (auto simp: ordinary_keys_def set_insert_by_key)

lemma sorted_sort_by_key: "ordinary_keys f xs \<Longrightarrow> sorted_by_key f (sort_by_key f xs)"
proof (induction xs)
  case Nil
  show ?case
    by (simp add: sort_by_key_def sorted_by_key_def)
next
  case (Cons x xs)
  from Cons.prems have x: "f x \<noteq> NaN" and xs: "ordinary_keys f xs"
    by (auto simp: ordinary_keys_def)
  from xs have "ordinary_keys f (sort_by_key f xs)"
    by (simp add: ordinary_keys_def set_sort_by_key)
  with Cons.IH [OF xs] x have "sorted_by_key f (insert_by_key f x (sort_by_key f xs))"
    by (intro sorted_insert_by_key)
  then show ?case
    by (simp add: sort_by_key_def)
qed

lemma sorted_merge_by_key:
  "sorted_by_key f xs \<Longrightarrow> sorted_by_key f ys \<Longrightarrow> ordinary_keys f xs \<Longrightarrow> ordinary_keys f ys \<Longrightarrow>
   sorted_by_key f (merge_by_key f xs ys)"
proof (induction f xs ys rule: merge_by_key.induct)
  case (1 f ys)
  then show ?case by simp
next
  case (2 f v va)
  then show ?case by simp
next
  case (3 f x xs y ys)
  from 3(3,4) have sx: "sorted_by_key f xs" and lex: "\<forall>z \<in> set xs. double_le (f x) (f z)"
    and sy: "sorted_by_key f ys" and ley: "\<forall>z \<in> set ys. double_le (f y) (f z)"
    by (simp_all add: sorted_by_key_def)
  from 3(5,6) have ox: "ordinary_keys f xs" and oy: "ordinary_keys f ys"
    and nx: "f x \<noteq> NaN" and ny: "f y \<noteq> NaN"
    by (auto simp: ordinary_keys_def)
  show ?case
  proof (cases "double_less (f y) (f x)")
    case True
    then have yx: "double_le (f y) (f x)"
      by (rule double_less_imp_le)
    with lex have "\<forall>z \<in> set xs. double_le (f y) (f z)"
      by (blast intro: double_le_trans)
    with yx ley have "\<forall>z \<in> set (merge_by_key f (x # xs) ys). double_le (f y) (f z)"
      by (auto simp: set_merge_by_key)
    moreover from 3(1) [OF True 3(3) sy 3(5) oy]
    have "sorted_by_key f (merge_by_key f (x # xs) ys)" .
    ultimately show ?thesis
      using True by (simp add: sorted_by_key_def)
  next
    case False
    with nx ny have xy: "double_le (f x) (f y)"
      by (simp add: double_not_less)
    with ley have "\<forall>z \<in> set ys. double_le (f x) (f z)"
      by (blast intro: double_le_trans)
    with xy lex have "\<forall>z \<in> set (merge_by_key f xs (y # ys)). double_le (f x) (f z)"
      by (auto simp: set_merge_by_key)
    moreover from 3(2) [OF False sx 3(4) ox 3(6)]
    have "sorted_by_key f (merge_by_key f xs (y # ys))" .
    ultimately show ?thesis
      using False by (simp add: sorted_by_key_def)
  qed
qed

lemma sorted_set:
  "ordinary_keys f data \<Longrightarrow> (alreadySorted \<longrightarrow> sorted_by_key f data) \<Longrightarrow>
   sorted_by_key f (QCPDataContainer_set f data alreadySorted)
   \<and> ordinary_keys f (QCPDataContainer_set f data alreadySorted)"
  by (simp add: QCPDataContainer_set_def sorted_sort_by_key ordinary_keys_def set_sort_by_key)

lemma sorted_add:
  "sorted_by_key f c \<Longrightarrow> ordinary_keys f c \<Longrightarrow> ordinary_keys f data \<Longrightarrow>
   (alreadySorted \<longrightarrow> sorted_by_key f data) \<Longrightarrow>
   sorted_by_key f (QCPDataContainer_add f data alreadySorted c)
   \<and> ordinary_keys f (QCPDataContainer_add f data alreadySorted c)"
proof -
  assume a: "sorted_by_key f c" "ordinary_keys f c" "ordinary_keys f data"
    "alreadySorted \<longrightarrow> sorted_by_key f data"
  let ?new = "if alreadySorted then data else sort_by_key f data"
  from a have "sorted_by_key f ?new" "ordinary_keys f ?new"
    by (simp_all add: sorted_sort_by_key ordinary_keys_def set_sort_by_key)
  with a(1,2) have "sorted_by_key f (merge_by_key f c ?new)"
    by (intro sorted_merge_by_key)
  moreover from a(2) \<open>ordinary_keys f ?new\<close> have "ordinary_keys f (merge_by_key f c ?new)"
    by (auto simp: ordinary_keys_def set_merge_by_key)
  ultimately show ?thesis
    by (simp add: QCPDataContainer_add_def)
qed

lemma sorted_add_one:
  "sorted_by_key f c \<Longrightarrow> ordinary_keys f c \<Longrightarrow> f d \<noteq> NaN \<Longrightarrow>
   sorted_by_key f (QCPDataContainer_add_one f d c)
   \<and> ordinary_keys f (QCPDataContainer_add_one f d c)"
  by (simp add: QCPDataContainer_add_one_def sorted_insert_by_key ordinary_insert_by_key)

lemma keys_financial_entries:
  "map QCPFinancialData_sortKey (QCPFinancial_entries keys opn hi lo cl)
   = map fst (zip keys (zip opn (zip hi (zip lo cl))))"
  by (simp add: QCPFinancial_entries_def QCPFinancialData_sortKey_def QCPFinancialData_ctor_def
      comp_def case_prod_beta)

lemma keys_graph_entries:
  "map QCPGraphData_sortKey (QCPGraph_entries keys vals) = map fst (zip keys vals)"
  by (simp add: QCPGraph_entries_def QCPGraphData_sortKey_def QCPGraphData_ctor_def
      comp_def case_prod_beta)

lemma sorted_by_key_map:
  "sorted_by_key f c = sorted_wrt double_le (map f c)"
  by (simp add: sorted_by_key_def sorted_wrt_map)

lemma entries_ordinary:
  "NaN \<notin> set keys \<Longrightarrow> NaN \<notin> set (map fst (zip keys ys))"
  by (auto dest: set_zip_leftD)

lemma entries_sorted:
  "sorted_wrt double_le keys \<Longrightarrow> sorted_wrt double_le (map fst (zip keys ys))"
  by (simp add: map_fst_zip_take)

lemma financial_entries:
  "NaN \<notin> set keys \<Longrightarrow>
   ordinary_keys QCPFinancialData_sortKey (QCPFinancial_entries keys opn hi lo cl)"
  "sorted_wrt double_le keys \<Longrightarrow>
   sorted_by_key QCPFinancialData_sortKey (QCPFinancial_entries keys opn hi lo cl)"
  by (simp_all only: ordinary_keys_def sorted_by_key_map keys_financial_entries
      entries_ordinary entries_sorted not_False_eq_True)

lemma graph_entries:
  "NaN \<notin> set keys \<Longrightarrow> ordinary_keys QCPGraphData_sortKey (QCPGraph_entries keys vals)"
  "sorted_wrt double_le keys \<Longrightarrow>
   sorted_by_key QCPGraphData_sortKey (QCPGraph_entries keys vals)"
  by (simp_all only: ordinary_keys_def sorted_by_key_map keys_graph_entries
      entries_ordinary entries_sorted not_False_eq_True)

text \<open>
  C4: a container holds its entries in ascending order of key, and \<^verbatim>\<open>setData\<close> and
  \<^verbatim>\<open>addData\<close> of both plottables keep it so, provided that no key is a NaN and that
  keys passed with \<^verbatim>\<open>alreadySorted = true\<close> are in ascending order, as the flag says;
  with \<^verbatim>\<open>alreadySorted = false\<close> the keys may come in any order. Keys that are
  ordinary stay ordinary. Adding one datum whose key is not a NaN and replacing the
  container by a sorted container keep the order as well.
\<close>

theorem containers_stay_sorted:
  "(NaN \<notin> set keys \<and> (alreadySorted \<longrightarrow> sorted_wrt double_le keys) \<longrightarrow>
      sorted_by_key QCPFinancialData_sortKey
        (QCPFinancial_setData keys opn hi lo cl alreadySorted c)
    \<and> ordinary_keys QCPFinancialData_sortKey
        (QCPFinancial_setData keys opn hi lo cl alreadySorted c)
    \<and> sorted_by_key QCPGraphData_sortKey (QCPGraph_setData keys vals alreadySorted g)
    \<and> ordinary_keys QCPGraphData_sortKey (QCPGraph_setData keys vals alreadySorted g))
   \<and> (sorted_by_key QCPFinancialData_sortKey c \<and> ordinary_keys QCPFinancialData_sortKey c
        \<and> NaN \<notin> set keys \<and> (alreadySorted \<longrightarrow> sorted_wrt double_le keys) \<longrightarrow>
        sorted_by_key QCPFinancialData_sortKey
          (QCPFinancial_addData keys opn hi lo cl alreadySorted c)
      \<and> ordinary_keys QCPFinancialData_sortKey
          (QCPFinancial_addData keys opn hi lo cl alreadySorted c))
   \<and> (sorted_by_key QCPGraphData_sortKey g \<and> ordinary_keys QCPGraphData_sortKey g
        \<and> NaN \<notin> set keys \<and> (alreadySorted \<longrightarrow> sorted_wrt double_le keys) \<longrightarrow>
        sorted_by_key QCPGraphData_sortKey (QCPGraph_addData keys vals alreadySorted g)
      \<and> ordinary_keys QCPGraphData_sortKey (QCPGraph_addData keys vals alreadySorted g))
   \<and> (sorted_by_key QCPFinancialData_sortKey c \<and> ordinary_keys QCPFinancialData_sortKey c
        \<and> k \<noteq> NaN \<longrightarrow>
        sorted_by_key QCPFinancialData_sortKey (QCPFinancial_addData_one k o' h l cl' c)
      \<and> ordinary_keys QCPFinancialData_sortKey (QCPFinancial_addData_one k o' h l cl' c))
   \<and> (sorted_by_key QCPGraphData_sortKey g \<and> ordinary_keys QCPGraphData_sortKey g
        \<and> k \<noteq> NaN \<longrightarrow>
        sorted_by_key QCPGraphData_sortKey (QCPGraph_addData_one k v g)
      \<and> ordinary_keys QCPGraphData_sortKey (QCPGraph_addData_one k v g))
   \<and> (sorted_by_key QCPFinancialData_sortKey c' \<longrightarrow>
        sorted_by_key QCPFinancialData_sortKey (QCPFinancial_setData_shared c' c))
   \<and> (sorted_by_key QCPGraphData_sortKey g' \<longrightarrow>
        sorted_by_key QCPGraphData_sortKey (QCPGraph_setData_shared g' g))"
proof (intro conjI impI)
  assume a: "NaN \<notin> set keys \<and> (alreadySorted \<longrightarrow> sorted_wrt double_le keys)"
  from a have f: "ordinary_keys QCPFinancialData_sortKey (QCPFinancial_entries keys opn hi lo cl)"
    "alreadySorted \<longrightarrow> sorted_by_key QCPFinancialData_sortKey (QCPFinancial_entries keys opn hi lo cl)"
    by (simp_all add: financial_entries)
  from sorted_set [OF f]
  show "sorted_by_key QCPFinancialData_sortKey
          (QCPFinancial_setData keys opn hi lo cl alreadySorted c)"
    "ordinary_keys QCPFinancialData_sortKey
          (QCPFinancial_setData keys opn hi lo cl alreadySorted c)"
    by (simp_all add: QCPFinancial_setData_def)
  from a have g: "ordinary_keys QCPGraphData_sortKey (QCPGraph_entries keys vals)"
    "alreadySorted \<longrightarrow> sorted_by_key QCPGraphData_sortKey (QCPGraph_entries keys vals)"
    by (simp_all add: graph_entries)
  from sorted_set [OF g]
  show "sorted_by_key QCPGraphData_sortKey (QCPGraph_setData keys vals alreadySorted g)"
    "ordinary_keys QCPGraphData_sortKey (QCPGraph_setData keys vals alreadySorted g)"
    by (simp_all add: QCPGraph_setData_def)
next
  assume a: "sorted_by_key QCPFinancialData_sortKey c \<and> ordinary_keys QCPFinancialData_sortKey c
        \<and> NaN \<notin> set keys \<and> (alreadySorted \<longrightarrow> sorted_wrt double_le keys)"
  then have f: "ordinary_keys QCPFinancialData_sortKey (QCPFinancial_entries keys opn hi lo cl)"
    "alreadySorted \<longrightarrow> sorted_by_key QCPFinancialData_sortKey (QCPFinancial_entries keys opn hi lo cl)"
    by (simp_all add: financial_entries)
  from a have c: "sorted_by_key QCPFinancialData_sortKey c" "ordinary_keys QCPFinancialData_sortKey c"
    by simp_all
  from sorted_add [OF c f]
  show "sorted_by_key QCPFinancialData_sortKey
          (QCPFinancial_addData keys opn hi lo cl alreadySorted c)"
    "ordinary_keys QCPFinancialData_sortKey
          (QCPFinancial_addData keys opn hi lo cl alreadySorted c)"
    by (simp_all add: QCPFinancial_addData_def)
next
  assume a: "sorted_by_key QCPGraphData_sortKey g \<and> ordinary_keys QCPGraphData_sortKey g
        \<and> NaN \<notin> set keys \<and> (alreadySorted \<longrightarrow> sorted_wrt double_le keys)"
  then have f: "ordinary_keys QCPGraphData_sortKey (QCPGraph_entries keys vals)"
    "alreadySorted \<longrightarrow> sorted_by_key QCPGraphData_sortKey (QCPGraph_entries keys vals)"
    by (simp_all add: graph_entries)
  from a have c: "sorted_by_key QCPGraphData_sortKey g" "ordinary_keys QCPGraphData_sortKey g"
    by simp_all
  from sorted_add [OF c f]
  show "sorted_by_key QCPGraphData_sortKey (QCPGraph_addData keys vals alreadySorted g)"
    "ordinary_keys QCPGraphData_sortKey (QCPGraph_addData keys vals alreadySorted g)"
    by (simp_all add: QCPGraph_addData_def)
next
  assume a: "sorted_by_key QCPFinancialData_sortKey c \<and> ordinary_keys QCPFinancialData_sortKey c
        \<and> k \<noteq> NaN"
  then have "QCPFinancialData_sortKey (QCPFinancialData_ctor k o' h l cl') \<noteq> NaN"
    by (simp add: QCPFinancialData_sortKey_def QCPFinancialData_ctor_def)
  with a sorted_add_one [of QCPFinancialData_sortKey c "QCPFinancialData_ctor k o' h l cl'"]
  show "sorted_by_key QCPFinancialData_sortKey (QCPFinancial_addData_one k o' h l cl' c)"
    "ordinary_keys QCPFinancialData_sortKey (QCPFinancial_addData_one k o' h l cl' c)"
    by (simp_all add: QCPFinancial_addData_one_def)
next
  assume a: "sorted_by_key QCPGraphData_sortKey g \<and> ordinary_keys QCPGraphData_sortKey g
        \<and> k \<noteq> NaN"
  then have "QCPGraphData_sortKey (QCPGraphData_ctor k v) \<noteq> NaN"
    by (simp add: QCPGraphData_sortKey_def QCPGraphData_ctor_def)
  with a sorted_add_one [of QCPGraphData_sortKey g "QCPGraphData_ctor k v"]
  show "sorted_by_key QCPGraphData_sortKey (QCPGraph_addData_one k v g)"
    "ordinary_keys QCPGraphData_sortKey (QCPGraph_addData_one k v g)"
    by (simp_all add: QCPGraph_addData_one_def)
next
  assume "sorted_by_key QCPFinancialData_sortKey c'"
  then show "sorted_by_key QCPFinancialData_sortKey (QCPFinancial_setData_shared c' c)"
    by (simp add: QCPFinancial_setData_shared_def)
next
  assume "sorted_by_key QCPGraphData_sortKey g'"
  then show "sorted_by_key QCPGraphData_sortKey (QCPGraph_setData_shared g' g)"
    by (simp add: QCPGraph_setData_shared_def)
qed

text \<open>
  \<^verbatim>\<open>alreadySorted = true\<close> is taken on trust: the keys 2, 1 passed with it are stored
  in this order by \<^verbatim>\<open>setData\<close> and by \<^verbatim>\<open>addData\<close>, and the container is not sorted
  afterwards. A NaN key is in order with no other key, wherever it is put.
\<close>

theorem alreadySorted_is_trusted:
  "QCPGraph_setData [Finite 2, Finite 1] [Finite 0, Finite 0] True []
     = [\<lparr>key' = Finite 2, value' = Finite 0\<rparr>, \<lparr>key' = Finite 1, value' = Finite 0\<rparr>]
   \<and> \<not> sorted_by_key QCPGraphData_sortKey
         (QCPGraph_setData [Finite 2, Finite 1] [Finite 0, Finite 0] True [])
   \<and> \<not> sorted_by_key QCPGraphData_sortKey
         (QCPGraph_addData [Finite 2, Finite 1] [Finite 0, Finite 0] True [])
   \<and> QCPGraph_setData [Finite 1, NaN] [Finite 0, Finite 0] False []
     = [\<lparr>key' = Finite 1, value' = Finite 0\<rparr>, \<lparr>key' = NaN, value' = Finite 0\<rparr>]
   \<and> \<not> sorted_by_key QCPGraphData_sortKey
         (QCPGraph_setData [Finite 1, NaN] [Finite 0, Finite 0] False [])"
  by (simp add: QCPGraph_setData_def QCPGraph_addData_def QCPDataContainer_set_def
      QCPDataContainer_add_def QCPGraph_entries_def QCPGraphData_ctor_def sort_by_key_def
      QCPGraphData_sortKey_def sorted_by_key_def double_le_def double_eq_def)

theorem containers_stay_sorted_witness:
  "QCPGraph_setData [Finite 3, Finite 1, Finite 2] [Finite 30, Finite 10, Finite 20] False [] =
     [\<lparr>key' = Finite 1, value' = Finite 10\<rparr>, \<lparr>key' = Finite 2, value' = Finite 20\<rparr>,
      \<lparr>key' = Finite 3, value' = Finite 30\<rparr>]
   \<and> sorted_by_key QCPGraphData_sortKey
       (QCPGraph_setData [Finite 3, Finite 1, Finite 2] [Finite 30, Finite 10, Finite 20] False [])
   \<and> sorted_wrt double_le [Finite 1, Finite 2]
   \<and> sorted_by_key QCPGraphData_sortKey
       [\<lparr>key' = Finite 0, value' = Finite 0\<rparr>, \<lparr>key' = Finite 5, value' = Finite 5\<rparr>]
   \<and> ordinary_keys QCPGraphData_sortKey
       [\<lparr>key' = Finite 0, value' = Finite 0\<rparr>, \<lparr>key' = Finite 5, value' = Finite 5\<rparr>]
   \<and> QCPGraph_addData [Finite 1, Finite 2] [Finite 10, Finite 20] True
       [\<lparr>key' = Finite 0, value' = Finite 0\<rparr>, \<lparr>key' = Finite 5, value' = Finite 5\<rparr>]
     = [\<lparr>key' = Finite 0, value' = Finite 0\<rparr>, \<lparr>key' = Finite 1, value' = Finite 10\<rparr>,
        \<lparr>key' = Finite 2, value' = Finite 20\<rparr>, \<lparr>key' = Finite 5, value' = Finite 5\<rparr>]
   \<and> sorted_by_key QCPGraphData_sortKey
        (QCPGraph_addData [Finite 1, Finite 2] [Finite 10, Finite 20] True
           [\<lparr>key' = Finite 0, value' = Finite 0\<rparr>, \<lparr>key' = Finite 5, value' = Finite 5\<rparr>])
   \<and> sorted_by_key QCPFinancialData_sortKey
        (QCPFinancial_setData [Finite 2, Finite 1] [Finite 0, Finite 0] [Finite 0, Finite 0]
           [Finite 0, Finite 0] [Finite 0, Finite 0] False [])
   \<and> sorted_by_key QCPFinancialData_sortKey
        (QCPFinancial_addData_one (Finite 4) (Finite 1) (Finite 2) (Finite 0) (Finite 1)
           (QCPFinancial_setData [Finite 2, Finite 1] [Finite 0, Finite 0] [Finite 0, Finite 0]
              [Finite 0, Finite 0] [Finite 0, Finite 0] False []))"
proof -
  let ?g = "[\<lparr>key' = Finite 0, value' = Finite 0\<rparr>, \<lparr>key' = Finite 5, value' = Finite 5\<rparr>]"
  let ?c = "QCPFinancial_setData [Finite 2, Finite 1] [Finite 0, Finite 0] [Finite 0, Finite 0]
              [Finite 0, Finite 0] [Finite 0, Finite 0] False []"
  have s: "sorted_by_key QCPGraphData_sortKey ?g" "ordinary_keys QCPGraphData_sortKey ?g"
    "sorted_wrt double_le [Finite 1, Finite 2]"
    by (simp_all add: sorted_by_key_def ordinary_keys_def QCPGraphData_sortKey_def
        double_le_def)
  have v: "QCPGraph_setData [Finite 3, Finite 1, Finite 2] [Finite 30, Finite 10, Finite 20] False [] =
     [\<lparr>key' = Finite 1, value' = Finite 10\<rparr>, \<lparr>key' = Finite 2, value' = Finite 20\<rparr>,
      \<lparr>key' = Finite 3, value' = Finite 30\<rparr>]"
    by (simp add: QCPGraph_setData_def QCPDataContainer_set_def QCPGraph_entries_def
        QCPGraphData_ctor_def QCPGraphData_sortKey_def sort_by_key_def)
  have w: "QCPGraph_addData [Finite 1, Finite 2] [Finite 10, Finite 20] True ?g
     = [\<lparr>key' = Finite 0, value' = Finite 0\<rparr>, \<lparr>key' = Finite 1, value' = Finite 10\<rparr>,
        \<lparr>key' = Finite 2, value' = Finite 20\<rparr>, \<lparr>key' = Finite 5, value' = Finite 5\<rparr>]"
    by (simp add: QCPGraph_addData_def QCPDataContainer_add_def QCPGraph_entries_def
        QCPGraphData_ctor_def QCPGraphData_sortKey_def)
  from containers_stay_sorted [of "[Finite 3, Finite 1, Finite 2]" False _ _ _ _ _
      "[Finite 30, Finite 10, Finite 20]" "[]"]
  have a: "sorted_by_key QCPGraphData_sortKey
       (QCPGraph_setData [Finite 3, Finite 1, Finite 2] [Finite 30, Finite 10, Finite 20] False [])"
    by simp
  from containers_stay_sorted [of "[Finite 1, Finite 2]" True _ _ _ _ _ "[Finite 10, Finite 20]" ?g] s
  have b: "sorted_by_key QCPGraphData_sortKey
        (QCPGraph_addData [Finite 1, Finite 2] [Finite 10, Finite 20] True ?g)"
    by simp
  from containers_stay_sorted [of "[Finite 2, Finite 1]" False "[Finite 0, Finite 0]"
      "[Finite 0, Finite 0]" "[Finite 0, Finite 0]" "[Finite 0, Finite 0]" "[]"]
  have c: "sorted_by_key QCPFinancialData_sortKey ?c" "ordinary_keys QCPFinancialData_sortKey ?c"
    by simp_all
  from containers_stay_sorted [of _ _ _ _ _ _ ?c _ _ "Finite 4" "Finite 1" "Finite 2" "Finite 0"
      "Finite 1"] c
  have d: "sorted_by_key QCPFinancialData_sortKey
        (QCPFinancial_addData_one (Finite 4) (Finite 1) (Finite 2) (Finite 0) (Finite 1) ?c)"
    by simp
  from v w a b c d s show ?thesis
    by simp
qed


section \<open>The loops of \<^verbatim>\<open>updateGradientImage\<close>\<close>

declare fill_data.simps [simp del] copy_first_line.simps [simp del]
  fill_line.simps [simp del] fill_lines.simps [simp del]

lemma fill_data_length: "length (fill_data i n data) = length data"
proof (induction i n data rule: fill_data.induct)
  case (1 i n data)
  show ?case
    by (subst fill_data.simps) (use 1 in simp)
qed

lemma fill_data_nth:
  "0 \<le> i \<Longrightarrow> k < length data \<Longrightarrow>
   fill_data i n data ! k =
     (if i \<le> int k \<and> int k < n then double_of_int (int k) else data ! k)"
proof (induction i n data arbitrary: k rule: fill_data.induct)
  case (1 i n data)
  show ?case
  proof (cases "i < n")
    case True
    with 1 have "fill_data (i + 1) n (data[nat i := double_of_int i]) ! k =
      (if i + 1 \<le> int k \<and> int k < n then double_of_int (int k)
       else data[nat i := double_of_int i] ! k)"
      by simp
    with True 1(2,3) show ?thesis
      by (subst fill_data.simps) (auto simp: nth_list_update)
  next
    case False
    then show ?thesis
      by (subst fill_data.simps) auto
  qed
qed

lemma fill_data_ramp:
  "fill_data 0 n (replicate (nat n) (Finite 0)) = map (\<lambda>k. double_of_int (int k)) [0..<nat n]"
  by (rule nth_equalityI) (auto simp: fill_data_length fill_data_nth)

lemma fill_line_length: "length (fill_line x w c pixels) = length pixels"
proof (induction x w c pixels rule: fill_line.induct)
  case (1 x w c pixels)
  show ?case
    by (subst fill_line.simps) (use 1 in simp)
qed

lemma fill_line_nth:
  "0 \<le> x \<Longrightarrow> k < length pixels \<Longrightarrow>
   fill_line x w c pixels ! k = (if x \<le> int k \<and> int k < w then Some c else pixels ! k)"
proof (induction x w c pixels arbitrary: k rule: fill_line.induct)
  case (1 x w c pixels)
  show ?case
  proof (cases "x < w")
    case True
    with 1 have "fill_line (x + 1) w c (pixels[nat x := Some c]) ! k =
      (if x + 1 \<le> int k \<and> int k < w then Some c else pixels[nat x := Some c] ! k)"
      by simp
    with True 1(2,3) show ?thesis
      by (subst fill_line.simps) (auto simp: nth_list_update)
  next
    case False
    then show ?thesis
      by (subst fill_line.simps) auto
  qed
qed

lemma fill_line_all:
  "length pixels = nat w \<Longrightarrow> fill_line 0 w c pixels = replicate (nat w) (Some c)"
  by (rule nth_equalityI) (auto simp: fill_line_length fill_line_nth)

lemma fill_lines_length: "length (fill_lines api g data n y h w lines) = length lines"
proof (induction api g data n y h w lines rule: fill_lines.induct)
  case (1 api g data n y h w lines)
  show ?case
    by (subst fill_lines.simps) (use 1 in simp)
qed

lemma fill_lines_nth:
  "0 \<le> y \<Longrightarrow> k < length lines \<Longrightarrow>
   fill_lines api g data n y h w lines ! k =
     (if y \<le> int k \<and> int k < h
      then fill_line 0 w (color api g (data ! nat (h - 1 - int k)) (QCPRange_ctor (Finite 0) (double_of_int (n - 1))))
             (lines ! k)
      else lines ! k)"
proof (induction api g data n y h w lines arbitrary: k rule: fill_lines.induct)
  case (1 api g data n y h w lines)
  let ?l = "lines[nat y :=
                fill_line 0 w (color api g (data ! nat (h - 1 - y)) (QCPRange_ctor (Finite 0) (double_of_int (n - 1))))
                  (lines ! nat y)]"
  show ?case
  proof (cases "y < h")
    case True
    with 1 have "fill_lines api g data n (y + 1) h w ?l ! k =
      (if y + 1 \<le> int k \<and> int k < h
       then fill_line 0 w (color api g (data ! nat (h - 1 - int k)) (QCPRange_ctor (Finite 0) (double_of_int (n - 1))))
             (?l ! k)
       else ?l ! k)"
      by simp
    with True 1(2,3) show ?thesis
      by (subst fill_lines.simps) (auto simp: nth_list_update)
  next
    case False
    then show ?thesis
      by (subst fill_lines.simps) auto
  qed
qed

lemma copy_first_line_length: "length (copy_first_line y h n pixels) = length pixels"
proof (induction y h n pixels rule: copy_first_line.induct)
  case (1 y h n pixels)
  show ?case
    by (subst copy_first_line.simps) (use 1 in simp)
qed

lemma copy_first_line_nth:
  "1 \<le> y \<Longrightarrow> k < length pixels \<Longrightarrow>
   copy_first_line y h n pixels ! k =
     (if y \<le> int k \<and> int k < h then memcpy (pixels ! k) (pixels ! 0) n else pixels ! k)"
proof (induction y h n pixels arbitrary: k rule: copy_first_line.induct)
  case (1 y h n pixels)
  let ?p = "pixels[nat y := memcpy (pixels ! nat y) (pixels ! 0) n]"
  show ?case
  proof (cases "y < h")
    case True
    with 1 have "copy_first_line (y + 1) h n ?p ! k =
      (if y + 1 \<le> int k \<and> int k < h then memcpy (?p ! k) (?p ! 0) n else ?p ! k)"
      by simp
    moreover from 1(2) have "?p ! 0 = pixels ! 0"
      by (simp add: nth_list_update)
    ultimately show ?thesis
      using True 1(2,3)
      by (subst copy_first_line.simps) (auto simp: nth_list_update)
  next
    case False
    then show ?thesis
      by (subst copy_first_line.simps) auto
  qed
qed

lemma QImage_ctor_valid:
  "0 < w \<Longrightarrow> 0 < h \<Longrightarrow>
   QImage_ctor w h = \<lparr>img_width = w, img_height = h,
                       scanLines = replicate (nat h) (replicate (nat w) None)\<rparr>"
  by (simp add: QImage_ctor_def)

lemma colorize_into_fresh:
  "length l = nat n \<Longrightarrow>
   colorize_into api g data rng l n = map (\<lambda>i. Some (colorize api g data rng n i)) [0..<nat n]"
  by (simp add: colorize_into_def)

lemma copy_first_line_all:
  assumes "0 < h" and "length l = nat n" and "\<forall>x \<in> set ls. length x = nat n"
    and "length ls = nat h - 1"
  shows "copy_first_line 1 h n (l # ls) = replicate (nat h) l"
proof (rule nth_equalityI)
  show "length (copy_first_line 1 h n (l # ls)) = length (replicate (nat h) l)"
    using assms by (simp add: copy_first_line_length)
next
  fix k
  assume "k < length (copy_first_line 1 h n (l # ls))"
  then have k: "k < nat h" "k < length (l # ls)"
    using assms by (simp_all add: copy_first_line_length)
  show "copy_first_line 1 h n (l # ls) ! k = replicate (nat h) l ! k"
  proof (cases k)
    case 0
    with k show ?thesis
      by (simp add: copy_first_line_nth)
  next
    case (Suc j)
    with k assms have "length (ls ! j) = nat n"
      by simp
    moreover from Suc k have "1 + int j < h"
      by linarith
    ultimately show ?thesis
      using Suc k assms(2) by (simp add: copy_first_line_nth memcpy_def)
  qed
qed

lemma horizontal_lines:
  assumes "0 < h" and "0 < n"
  shows "copy_first_line 1 h n
           (colorize_into api g data rng (replicate (nat n) None) n
              # replicate (nat h - Suc 0) (replicate (nat n) None))
         = replicate (nat h) (map (\<lambda>i. Some (colorize api g data rng n i)) [0..<nat n])"
proof -
  have "copy_first_line 1 h n
          (map (\<lambda>i. Some (colorize api g data rng n i)) [0..<nat n]
            # replicate (nat h - Suc 0) (replicate (nat n) None))
        = replicate (nat h) (map (\<lambda>i. Some (colorize api g data rng n i)) [0..<nat n])"
    using assms by (intro copy_first_line_all) simp_all
  then show ?thesis
    by (simp add: colorize_into_fresh)
qed

lemma vertical_lines:
  assumes "0 < n"
  shows "fill_lines api g (map (\<lambda>k. double_of_int (int k)) [0..<nat n]) n 0 n w
           (replicate (nat n) (replicate (nat w) None))
         = map (\<lambda>y. replicate (nat w)
                      (Some (color api g (double_of_int (n - 1 - int y)) (QCPRange_ctor (Finite 0) (double_of_int (n - 1))))))
             [0..<nat n]"
proof (rule nth_equalityI)
  show "length (fill_lines api g (map (\<lambda>k. double_of_int (int k)) [0..<nat n]) n 0 n w
           (replicate (nat n) (replicate (nat w) None)))
        = length (map (\<lambda>y. replicate (nat w)
                      (Some (color api g (double_of_int (n - 1 - int y)) (QCPRange_ctor (Finite 0) (double_of_int (n - 1))))))
             [0..<nat n])"
    by (simp add: fill_lines_length)
next
  fix k
  assume "k < length (fill_lines api g (map (\<lambda>k. double_of_int (int k)) [0..<nat n]) n 0 n w
           (replicate (nat n) (replicate (nat w) None)))"
  then have k: "k < nat n"
    by (simp add: fill_lines_length)
  then have idx: "nat (n - 1 - int k) < nat n" "int (nat (n - 1 - int k)) = n - 1 - int k"
    by auto
  from k have "int k < n" by auto
  with k idx show "fill_lines api g (map (\<lambda>k. double_of_int (int k)) [0..<nat n]) n 0 n w
           (replicate (nat n) (replicate (nat w) None)) ! k
        = map (\<lambda>y. replicate (nat w)
                      (Some (color api g (double_of_int (n - 1 - int y)) (QCPRange_ctor (Finite 0) (double_of_int (n - 1))))))
             [0..<nat n] ! k"
    by (simp add: fill_lines_nth fill_line_all)
qed

lemma updateGradientImage_empty:
  "isEmpty (mRect r) \<Longrightarrow> updateGradientImage api parent r = Inr r"
  by (simp add: updateGradientImage_def)

lemma updateGradientImage_eq:
  "updateGradientImage api s r =
     (if isEmpty (mRect r) then Inr r
      else if levelCount api (mGradient s) < 0 then Inl QVector_negative_size
      else Inr (r\<lparr>mGradientImage := gradient_image api (mGradient s) (mAxisType s) (mRect r),
                 mGradientImageInvalidated := False\<rparr>))"
  by (simp add: updateGradientImage_def gradient_image_def Let_def)

lemma QCPRange_ctor_levels:
  "0 < n \<Longrightarrow>
   QCPRange_ctor (Finite 0) (double_of_int (n - 1))
   = \<lparr>lower = Finite 0, upper = double_of_int (n - 1)\<rparr>"
  by (simp add: QCPRange_ctor_def double_greater_def double_of_int_def)

lemma gradient_image_horizontal:
  assumes "axisType = atBottom \<or> axisType = atTop"
    and "0 < rect_height rect" and "0 < levelCount api g"
  shows "gradient_image api g axisType rect =
    \<lparr>img_width = levelCount api g, img_height = rect_height rect,
     scanLines =
       replicate (nat (rect_height rect))
         (map (\<lambda>i. Some (colorize api g
                            (map (\<lambda>k. double_of_int (int k)) [0..<nat (levelCount api g)])
                            \<lparr>lower = Finite 0, upper = double_of_int (levelCount api g - 1)\<rparr>
                            (levelCount api g) i))
            [0..<nat (levelCount api g)])\<rparr>"
proof -
  let ?n = "levelCount api g"
  have lines: "scanLines (QImage_ctor ?n (rect_height rect))
               = replicate (nat ?n) None
                   # replicate (nat (rect_height rect) - Suc 0) (replicate (nat ?n) None)"
    using assms(2,3) by (cases "nat (rect_height rect)") (simp_all add: QImage_ctor_valid)
  show ?thesis
    using assms
    unfolding gradient_image_def Let_def fill_data_ramp lines
    by (simp add: horizontal_lines QImage_ctor_valid QCPRange_ctor_levels)
qed

lemma gradient_image_vertical:
  assumes "\<not> (axisType = atBottom \<or> axisType = atTop)"
    and "0 < rect_width rect" and "0 < levelCount api g"
  shows "gradient_image api g axisType rect =
    \<lparr>img_width = rect_width rect, img_height = levelCount api g,
     scanLines =
       map (\<lambda>y. replicate (nat (rect_width rect))
                   (Some (color api g (double_of_int (levelCount api g - 1 - int y))
                            \<lparr>lower = Finite 0, upper = double_of_int (levelCount api g - 1)\<rparr>)))
         [0..<nat (levelCount api g)]\<rparr>"
proof -
  let ?n = "levelCount api g"
  from vertical_lines [OF assms(3), of api g "rect_width rect"]
  show ?thesis
    using assms
    unfolding gradient_image_def Let_def fill_data_ramp
    by (simp add: QImage_ctor_valid QCPRange_ctor_levels)
qed

lemma updateGradientImage_nonempty:
  assumes "\<not> isEmpty (mRect r)" and "1 \<le> levelCount api (mGradient parent)"
  shows "updateGradientImage api parent r =
    (let n = levelCount api (mGradient parent); g = mGradient parent in
     Inr (r\<lparr>mGradientImage :=
            (if mAxisType parent = atBottom \<or> mAxisType parent = atTop
             then \<lparr>img_width = n, img_height = rect_height (mRect r),
                   scanLines =
                     replicate (nat (rect_height (mRect r)))
                       (map (\<lambda>i. Some (colorize api g
                                          (map (\<lambda>k. double_of_int (int k)) [0..<nat n])
                                          \<lparr>lower = Finite 0, upper = double_of_int (n - 1)\<rparr> n i))
                          [0..<nat n])\<rparr>
             else \<lparr>img_width = rect_width (mRect r), img_height = n,
                   scanLines =
                     map (\<lambda>y. replicate (nat (rect_width (mRect r)))
                                 (Some (color api g (double_of_int (n - 1 - int y))
                                          \<lparr>lower = Finite 0, upper = double_of_int (n - 1)\<rparr>)))
                       [0..<nat n]\<rparr>),
            mGradientImageInvalidated := False\<rparr>))"
proof -
  from assms(1) have wh: "0 < rect_width (mRect r)" "0 < rect_height (mRect r)"
    by (simp_all add: isEmpty_def)
  from assms(2) have n: "0 < levelCount api (mGradient parent)"
    by simp
  show ?thesis
  proof (cases "mAxisType parent = atBottom \<or> mAxisType parent = atTop")
    case True
    from gradient_image_horizontal [OF True wh(2) n] True assms(1) n show ?thesis
      by (simp add: updateGradientImage_eq Let_def)
  next
    case False
    from gradient_image_vertical [OF False wh(1) n] False assms(1) n show ?thesis
      by (simp add: updateGradientImage_eq Let_def)
  qed
qed


section \<open>The cache: lemmas\<close>

lemma updateGradientImage_frame:
  "updateGradientImage api s r = Inr r1 \<Longrightarrow> mRect r1 = mRect r \<and> axes r1 = axes r"
  by (auto simp: updateGradientImage_eq split: if_splits)












section \<open>The gradient image\<close>

text \<open>
  C5: for a rect that is not empty and a gradient of \<^term>\<open>n\<close> levels, \<^term>\<open>n\<close> at
  least 1, \<^verbatim>\<open>updateGradientImage\<close> succeeds, clears the flag and stores this image.
  For the axis types \<^verbatim>\<open>atBottom\<close> and \<^verbatim>\<open>atTop\<close> it is \<^term>\<open>n\<close> wide and as high
  as the rect, and each of its scan lines is what \<^verbatim>\<open>colorize\<close> writes for the data
  0, 1, ..., n - 1 and the range from 0 to n - 1. Otherwise it is as wide as the rect
  and \<^term>\<open>n\<close> high, and every pixel of line \<^term>\<open>y\<close> has the colour of the level
  n - 1 - y, so that the highest level is the top line. The library keeps the level count
  of a gradient at 2 or more; with no level the toolkit would hand out a null image.
\<close>

theorem updateGradientImage_produces:
  assumes "\<not> isEmpty (mRect r)" and "1 \<le> levelCount api (mGradient parent)"
  shows "updateGradientImage api parent r =
    (let n = levelCount api (mGradient parent); g = mGradient parent in
     Inr (r\<lparr>mGradientImage :=
            (if mAxisType parent = atBottom \<or> mAxisType parent = atTop
             then \<lparr>img_width = n, img_height = rect_height (mRect r),
                   scanLines =
                     replicate (nat (rect_height (mRect r)))
                       (map (\<lambda>i. Some (colorize api g
                                          (map (\<lambda>k. double_of_int (int k)) [0..<nat n])
                                          \<lparr>lower = Finite 0, upper = double_of_int (n - 1)\<rparr> n i))
                          [0..<nat n])\<rparr>
             else \<lparr>img_width = rect_width (mRect r), img_height = n,
                   scanLines =
                     map (\<lambda>y. replicate (nat (rect_width (mRect r)))
                                 (Some (color api g (double_of_int (n - 1 - int y))
                                          \<lparr>lower = Finite 0, upper = double_of_int (n - 1)\<rparr>)))
                       [0..<nat n]\<rparr>),
            mGradientImageInvalidated := False\<rparr>))"
  using assms by (rule updateGradientImage_nonempty)

theorem updateGradientImage_produces_witness:
  "\<not> isEmpty (mRect example_axisRect)
   \<and> 1 \<le> levelCount example_api (mGradient example_scale)
   \<and> updateGradientImage example_api example_scale example_axisRect =
       Inr (example_axisRect
              \<lparr>mGradientImage :=
                 \<lparr>img_width = 3, img_height = 2,
                  scanLines = [[Some 11, Some 11, Some 11], [Some 10, Some 10, Some 10]]\<rparr>,
               mGradientImageInvalidated := False\<rparr>)
   \<and> updateGradientImage example_api (example_scale\<lparr>mAxisType := atBottom\<rparr>) example_axisRect =
       Inr (example_axisRect
              \<lparr>mGradientImage :=
                 \<lparr>img_width = 2, img_height = 2,
                  scanLines = [[Some 100, Some 101], [Some 100, Some 101]]\<rparr>,
               mGradientImageInvalidated := False\<rparr>)"
proof -
  have ne: "\<not> isEmpty (mRect example_axisRect)"
    by (simp add: isEmpty_def example_axisRect_def)
  have n: "1 \<le> levelCount example_api (mGradient example_scale)"
    "1 \<le> levelCount example_api (mGradient (example_scale\<lparr>mAxisType := atBottom\<rparr>))"
    by (simp_all add: example_api_def example_scale_def)
  have two: "[0..<2] = [0, Suc 0]" "replicate 3 x = [x, x, x]" "replicate 2 y = [y, y]" for x :: "'a" and y :: "'b"
    by (simp_all add: numeral_2_eq_2 numeral_3_eq_3 upt_rec)
  from updateGradientImage_produces [OF ne n(1)] updateGradientImage_produces [OF ne n(2)] ne n
  show ?thesis
    by (simp add: example_api_def example_scale_def example_axisRect_def two Let_def
        double_of_int_def)
qed

text \<open>
  C6: when the rect of the axis rect is empty, \<^verbatim>\<open>updateGradientImage\<close> returns at once
  and changes nothing: the cached image stays, and the flag keeps its value, so it is not
  cleared.
\<close>

theorem updateGradientImage_empty_rect:
  "isEmpty (mRect r) \<Longrightarrow>
   updateGradientImage api parent r = Inr r
   \<and> (\<forall>r'. updateGradientImage api parent r = Inr r' \<longrightarrow>
          mGradientImage r' = mGradientImage r
        \<and> mGradientImageInvalidated r' = mGradientImageInvalidated r)"
  by (simp add: updateGradientImage_empty)

theorem updateGradientImage_empty_rect_witness:
  "isEmpty (mRect (example_axisRect\<lparr>mRect := \<lparr>rect_x = 0, rect_y = 0, rect_width = 0, rect_height = 5\<rparr>\<rparr>))
   \<and> updateGradientImage example_api example_scale
         (example_axisRect\<lparr>mRect := \<lparr>rect_x = 0, rect_y = 0, rect_width = 0, rect_height = 5\<rparr>\<rparr>)
       = Inr (example_axisRect\<lparr>mRect := \<lparr>rect_x = 0, rect_y = 0, rect_width = 0, rect_height = 5\<rparr>\<rparr>)
   \<and> mGradientImageInvalidated
         (example_axisRect\<lparr>mRect := \<lparr>rect_x = 0, rect_y = 0, rect_width = 0, rect_height = 5\<rparr>\<rparr>)"
proof -
  have e: "isEmpty (mRect (example_axisRect\<lparr>mRect := \<lparr>rect_x = 0, rect_y = 0, rect_width = 0, rect_height = 5\<rparr>\<rparr>))"
    by (simp add: isEmpty_def)
  from updateGradientImage_empty_rect [OF e, of example_api example_scale] e show ?thesis
    by (simp add: example_axisRect_def)
qed


section \<open>The cache: correctness\<close>

lemma setGradient_effect:
  "mGradient (setGradient g s) = g
   \<and> mAxisRect (setGradient g s) =
       map_option
         (\<lambda>r. r\<lparr>mGradientImageInvalidated := (mGradient s \<noteq> g \<or> mGradientImageInvalidated r)\<rparr>)
         (mAxisRect s)"
  by (cases "mAxisRect s") (simp_all add: setGradient_def emit_def on_axisRect_def Let_def)






















section \<open>The setters\<close>

lemma QCPRange_eq_iff: "(a = (b::QCPRange)) = (lower a = lower b \<and> upper a = upper b)"
  by (cases a, cases b) auto

lemma double_ne_same: "double_ne a a = (a = NaN)"
  by (simp add: double_ne_def double_eq_def)

lemma not_double_ne: "(\<not> double_ne a b) = (a \<noteq> NaN \<and> a = b)"
  by (auto simp: double_ne_def double_eq_def)

lemma emitted_on_colorAxis: "emitted (on_colorAxis f s) = emitted s"
  by (simp add: on_colorAxis_def split: option.splits prod.splits)

lemma emitted_on_axisRect: "emitted (on_axisRect f s) = emitted s"
  by (simp add: on_axisRect_def)

lemma mDataRange_on_colorAxis: "mDataRange (on_colorAxis f s) = mDataRange s"
  by (simp add: on_colorAxis_def split: option.splits prod.splits)

lemma mDataScaleType_on_colorAxis: "mDataScaleType (on_colorAxis f s) = mDataScaleType s"
  by (simp add: on_colorAxis_def split: option.splits prod.splits)

lemmas setter_frame =
  emitted_on_colorAxis emitted_on_axisRect mDataRange_on_colorAxis mDataScaleType_on_colorAxis

lemma setDataRange_same:
  "\<not> (double_ne (lower (mDataRange s)) (lower r) \<or> double_ne (upper (mDataRange s)) (upper r))
   \<Longrightarrow> setDataRange r s = s"
  by (simp add: setDataRange_def)

lemma setDataRange_fields:
  "mDataRange (setDataRange r s) = r"
  "mDataScaleType (setDataRange r s) = mDataScaleType s"
  "emitted (setDataRange r s) =
     emitted s
     @ (if double_ne (lower (mDataRange s)) (lower r) \<or> double_ne (upper (mDataRange s)) (upper r)
        then [dataRangeChanged r] else [])"
  by (auto simp: setDataRange_def Let_def emit_def QCPRange_eq_iff setter_frame not_double_ne
      double_ne_same)

lemma setDataRange_changes:
  "(setDataRange r s \<noteq> s)
   = (double_ne (lower (mDataRange s)) (lower r) \<or> double_ne (upper (mDataRange s)) (upper r))"
proof (cases "double_ne (lower (mDataRange s)) (lower r)
              \<or> double_ne (upper (mDataRange s)) (upper r)")
  case True
  then have "emitted (setDataRange r s) \<noteq> emitted s"
    by (simp add: setDataRange_fields)
  then have "setDataRange r s \<noteq> s"
    by auto
  with True show ?thesis by simp
next
  case False
  then show ?thesis
    by (simp add: setDataRange_same)
qed

lemma setDataRange_idem:
  "(setDataRange r (setDataRange r s) = setDataRange r s) = (lower r \<noteq> NaN \<and> upper r \<noteq> NaN)"
  using setDataRange_changes [of r "setDataRange r s"]
  by (auto simp: setDataRange_fields double_ne_same)

lemma setDataScaleType_fields:
  "mDataScaleType (setDataScaleType f t s) = t"
  "emitted (setDataScaleType f t s) =
     emitted s
     @ (if mDataScaleType s \<noteq> t
        then (if t = stLogarithmic
                   \<and> (double_ne (lower (mDataRange s)) (lower (f (mDataRange s)))
                        \<or> double_ne (upper (mDataRange s)) (upper (f (mDataRange s))))
              then [dataRangeChanged (f (mDataRange s))] else [])
             @ [dataScaleTypeChanged t]
        else [])"
  by (auto simp: setDataScaleType_def Let_def emit_def setDataRange_fields setter_frame)

lemma setDataScaleType_changes:
  "(setDataScaleType f t s \<noteq> s) = (mDataScaleType s \<noteq> t)"
proof (cases "mDataScaleType s \<noteq> t")
  case True
  then have "emitted (setDataScaleType f t s) \<noteq> emitted s"
    by (simp add: setDataScaleType_fields)
  then have "setDataScaleType f t s \<noteq> s"
    by auto
  with True show ?thesis by simp
next
  case False
  then show ?thesis
    by (simp add: setDataScaleType_def)
qed

lemma setDataScaleType_idem:
  "setDataScaleType f t (setDataScaleType f t s) = setDataScaleType f t s"
proof -
  have "mDataScaleType (setDataScaleType f t s) = t"
    by (simp add: setDataScaleType_fields)
  then show ?thesis
    by (subst setDataScaleType_def) simp
qed


lemma setGradient_fields:
  "emitted (setGradient g s) = emitted s @ (if mGradient s \<noteq> g then [gradientChanged g] else [])"
  by (simp add: setGradient_def Let_def emit_def on_axisRect_def)

lemma setGradient_changes: "(setGradient g s \<noteq> s) = (mGradient s \<noteq> g)"
proof (cases "mGradient s \<noteq> g")
  case True
  then have "emitted (setGradient g s) \<noteq> emitted s"
    by (simp add: setGradient_fields)
  then have "setGradient g s \<noteq> s"
    by auto
  with True show ?thesis by simp
next
  case False
  then show ?thesis
    by (simp add: setGradient_def)
qed

lemma setGradient_idem: "setGradient g (setGradient g s) = setGradient g s"
proof -
  have "mGradient (setGradient g s) = g"
    using setGradient_effect [of g s] by simp
  then show ?thesis
    by (subst setGradient_def) simp
qed

text \<open>
  C8: \<^verbatim>\<open>setDataRange\<close>, \<^verbatim>\<open>setDataScaleType\<close> and \<^verbatim>\<open>setGradient\<close> change the state
  exactly when the argument differs from the stored value, as \<^verbatim>\<open>!=\<close> compares them (for
  \<^verbatim>\<open>setDataRange\<close>: the lower or the upper bounds); they then store the argument and emit
  their signal with it, and otherwise emit nothing. \<^verbatim>\<open>setDataScaleType\<close> emits
  \<^verbatim>\<open>dataRangeChanged\<close> before its own signal when the switch to the logarithmic scale
  changes the range. A second call of \<^verbatim>\<open>setDataScaleType\<close> or of \<^verbatim>\<open>setGradient\<close> with
  the same argument changes nothing; a second call of \<^verbatim>\<open>setDataRange\<close> with the same
  range changes nothing exactly when neither bound of the range is a NaN.
\<close>

theorem setters_change_iff_differs:
  "(setDataRange r s \<noteq> s)
     = (double_ne (lower (mDataRange s)) (lower r) \<or> double_ne (upper (mDataRange s)) (upper r))
   \<and> mDataRange (setDataRange r s) = r
   \<and> emitted (setDataRange r s) =
       emitted s
       @ (if double_ne (lower (mDataRange s)) (lower r)
             \<or> double_ne (upper (mDataRange s)) (upper r)
          then [dataRangeChanged r] else [])
   \<and> (setDataRange r (setDataRange r s) = setDataRange r s)
       = (lower r \<noteq> NaN \<and> upper r \<noteq> NaN)
   \<and> (setDataScaleType f t s \<noteq> s) = (mDataScaleType s \<noteq> t)
   \<and> mDataScaleType (setDataScaleType f t s) = t
   \<and> emitted (setDataScaleType f t s) =
       emitted s
       @ (if mDataScaleType s \<noteq> t
          then (if t = stLogarithmic
                     \<and> (double_ne (lower (mDataRange s)) (lower (f (mDataRange s)))
                          \<or> double_ne (upper (mDataRange s)) (upper (f (mDataRange s))))
                then [dataRangeChanged (f (mDataRange s))] else [])
               @ [dataScaleTypeChanged t]
          else [])
   \<and> setDataScaleType f t (setDataScaleType f t s) = setDataScaleType f t s
   \<and> (setGradient g s \<noteq> s) = (mGradient s \<noteq> g)
   \<and> mGradient (setGradient g s) = g
   \<and> emitted (setGradient g s) =
       emitted s @ (if mGradient s \<noteq> g then [gradientChanged g] else [])
   \<and> setGradient g (setGradient g s) = setGradient g s"
  using setDataRange_changes [of r s] setDataRange_fields [of r s] setDataRange_idem [of r s]
    setDataScaleType_changes [of f t s] setDataScaleType_fields [of f t s]
    setDataScaleType_idem [of f t s]
    setGradient_changes [of g s] setGradient_effect [of g s] setGradient_fields [of g s]
    setGradient_idem [of g s]
  by (intro conjI) (simp_all only:)

text \<open>
  A range with a NaN bound differs from itself: the second call of \<^verbatim>\<open>setDataRange\<close>
  with it finds the stored range, which is this range, different from its argument, and
  emits the signal once more.
\<close>

theorem setDataRange_repeats_for_NaN:
  "mDataRange (setDataRange example_nan_range example_scale) = example_nan_range
   \<and> emitted (setDataRange example_nan_range example_scale)
       = [dataRangeChanged example_nan_range]
   \<and> mDataRange (setDataRange example_nan_range (setDataRange example_nan_range example_scale))
       = example_nan_range
   \<and> emitted (setDataRange example_nan_range (setDataRange example_nan_range example_scale))
       = [dataRangeChanged example_nan_range, dataRangeChanged example_nan_range]
   \<and> setDataRange example_nan_range (setDataRange example_nan_range example_scale)
       \<noteq> setDataRange example_nan_range example_scale"
proof -
  have n: "double_ne (lower x) (lower example_nan_range)" for x :: QCPRange
    by (simp add: example_nan_range_def double_ne_def double_eq_def)
  have e: "emitted example_scale = []"
    by (simp add: example_scale_def)
  have e1: "emitted (setDataRange example_nan_range example_scale)
       = [dataRangeChanged example_nan_range]"
    by (simp add: setDataRange_fields n e)
  have e2: "emitted (setDataRange example_nan_range (setDataRange example_nan_range example_scale))
       = [dataRangeChanged example_nan_range, dataRangeChanged example_nan_range]"
    by (simp add: setDataRange_fields(3) [of _ "setDataRange example_nan_range example_scale"] n e1)
  have "setDataRange example_nan_range (setDataRange example_nan_range example_scale)
       \<noteq> setDataRange example_nan_range example_scale"
  proof
    assume "setDataRange example_nan_range (setDataRange example_nan_range example_scale)
       = setDataRange example_nan_range example_scale"
    then have "emitted (setDataRange example_nan_range (setDataRange example_nan_range example_scale))
       = emitted (setDataRange example_nan_range example_scale)"
      by simp
    with e1 e2 show False
      by simp
  qed
  with e1 e2 show ?thesis
    by (simp add: setDataRange_fields(1))
qed

theorem setters_change_iff_differs_witness:
  "setDataRange \<lparr>lower = Finite 0, upper = Finite 6\<rparr> example_scale = example_scale
   \<and> setDataRange \<lparr>lower = Finite 1, upper = Finite 2\<rparr> example_scale \<noteq> example_scale
   \<and> emitted (setDataRange \<lparr>lower = Finite 1, upper = Finite 2\<rparr> example_scale)
       = [dataRangeChanged \<lparr>lower = Finite 1, upper = Finite 2\<rparr>]
   \<and> setDataRange \<lparr>lower = Finite 1, upper = Finite 2\<rparr>
         (setDataRange \<lparr>lower = Finite 1, upper = Finite 2\<rparr> example_scale)
       = setDataRange \<lparr>lower = Finite 1, upper = Finite 2\<rparr> example_scale
   \<and> setDataScaleType (\<lambda>r. r\<lparr>lower := Finite 1\<rparr>) stLinear example_scale = example_scale
   \<and> emitted (setDataScaleType (\<lambda>r. r\<lparr>lower := Finite 1\<rparr>) stLogarithmic example_scale)
       = [dataRangeChanged \<lparr>lower = Finite 1, upper = Finite 6\<rparr>,
          dataScaleTypeChanged stLogarithmic]
   \<and> setGradient 2 example_scale = example_scale
   \<and> emitted (setGradient 3 example_scale) = [gradientChanged 3]
   \<and> setGradient 3 (setGradient 3 example_scale) = setGradient 3 example_scale"
proof -
  have f: "mDataRange example_scale = \<lparr>lower = Finite 0, upper = Finite 6\<rparr>"
    "emitted example_scale = []"
    "mDataScaleType example_scale = stLinear" "mGradient example_scale = 2"
    by (simp_all add: example_scale_def)
  from setters_change_iff_differs [of "\<lparr>lower = Finite 0, upper = Finite 6\<rparr>" example_scale
      "\<lambda>r. r\<lparr>lower := Finite 1\<rparr>" stLinear 2]
    setters_change_iff_differs [of "\<lparr>lower = Finite 1, upper = Finite 2\<rparr>" example_scale
      "\<lambda>r. r\<lparr>lower := Finite 1\<rparr>" stLogarithmic 3]
  show ?thesis
    by (simp add: f double_ne_def double_eq_def)
qed


section \<open>The data range on a logarithmic scale\<close>







section \<open>The null pointer guards\<close>

text \<open>
  C2: with a null axis rect pointer the getters \<^verbatim>\<open>rangeDrag\<close> and \<^verbatim>\<open>rangeZoom\<close> return
  false, and \<^verbatim>\<open>setType\<close>, \<^verbatim>\<open>setRangeDrag\<close>, \<^verbatim>\<open>setRangeZoom\<close> and the four event
  handlers return the state as it was; each writes one line to the debug log and nothing
  else. The getters do the same for a null color axis pointer. \<^verbatim>\<open>update\<close> is different:
  it runs the update of the base class first and looks at the pointer afterwards, so with a
  null axis rect its effect is that of the base class's update, followed by the log line.
\<close>

theorem null_pointer_guards:
  "(mAxisRect s = None \<longrightarrow>
      rangeDrag s =
        (False, s\<lparr>debugLog := debugLog s
                  @ [(''QCPColorScale::rangeDrag'', ''internal axis rect was deleted'')]\<rparr>)
    \<and> rangeZoom s =
        (False, s\<lparr>debugLog := debugLog s
                  @ [(''QCPColorScale::rangeZoom'', ''internal axis rect was deleted'')]\<rparr>)
    \<and> setType t s =
        s\<lparr>debugLog := debugLog s @ [(''QCPColorScale::setType'', ''internal axis rect was deleted'')]\<rparr>
    \<and> setRangeDrag b s =
        s\<lparr>debugLog := debugLog s
                  @ [(''QCPColorScale::setRangeDrag'', ''internal axis rect was deleted'')]\<rparr>
    \<and> setRangeZoom b s =
        s\<lparr>debugLog := debugLog s
                  @ [(''QCPColorScale::setRangeZoom'', ''internal axis rect was deleted'')]\<rparr>
    \<and> mousePressEvent rapi me s =
        s\<lparr>debugLog := debugLog s
                  @ [(''QCPColorScale::mousePressEvent'', ''internal axis rect was deleted'')]\<rparr>
    \<and> mouseMoveEvent rapi me s =
        s\<lparr>debugLog := debugLog s
                  @ [(''QCPColorScale::mouseMoveEvent'', ''internal axis rect was deleted'')]\<rparr>
    \<and> mouseReleaseEvent rapi me s =
        s\<lparr>debugLog := debugLog s
                  @ [(''QCPColorScale::mouseReleaseEvent'', ''internal axis rect was deleted'')]\<rparr>
    \<and> wheelEvent rapi we s =
        s\<lparr>debugLog := debugLog s
                  @ [(''QCPColorScale::wheelEvent'', ''internal axis rect was deleted'')]\<rparr>)
   \<and> (mAxisRect s \<noteq> None \<and> mColorAxis s = None \<longrightarrow>
        rangeDrag s =
          (False, s\<lparr>debugLog := debugLog s
                    @ [(''QCPColorScale::rangeDrag'', ''internal color axis undefined'')]\<rparr>)
      \<and> rangeZoom s =
          (False, s\<lparr>debugLog := debugLog s
                    @ [(''QCPColorScale::rangeZoom'', ''internal color axis undefined'')]\<rparr>))
   \<and> (mAxisRect (layoutUpdate phase s) = None \<longrightarrow>
        update layoutUpdate rapi phase s =
          (layoutUpdate phase s)
            \<lparr>debugLog := debugLog (layoutUpdate phase s)
               @ [(''QCPColorScale::update'', ''internal axis rect was deleted'')]\<rparr>)"
  by (auto simp: rangeDrag_def rangeZoom_def setType_def setRangeDrag_def setRangeZoom_def
      mousePressEvent_def mouseMoveEvent_def mouseReleaseEvent_def wheelEvent_def update_def
      qDebug_def Let_def)

text \<open>
  That \<^verbatim>\<open>update\<close> too leaves every stored field unchanged does not hold: on a color scale with margins 0 and minimum margins (0, 6, 0, 6) whose axis rect
  was deleted, \<^verbatim>\<open>update(upMargins)\<close> leaves the margins (0, 6, 0, 6).
\<close>

theorem update_runs_base_class_first:
  "mAxisRect example_deleted = None
   \<and> leMargins example_deleted = \<lparr>m_left = 0, m_top = 0, m_right = 0, m_bottom = 0\<rparr>
   \<and> leMargins (update example_layout_update example_rapi upMargins example_deleted)
       = \<lparr>m_left = 0, m_top = 6, m_right = 0, m_bottom = 6\<rparr>
   \<and> update example_layout_update example_rapi upMargins example_deleted
       \<noteq> example_deleted\<lparr>debugLog := debugLog example_deleted
             @ [(''QCPColorScale::update'', ''internal axis rect was deleted'')]\<rparr>"
proof -
  have m: "leMargins (update example_layout_update example_rapi upMargins example_deleted)
       = \<lparr>m_left = 0, m_top = 6, m_right = 0, m_bottom = 6\<rparr>"
    by (simp add: update_def example_layout_update_def example_deleted_def example_scale_def
        qDebug_def Let_def)
  have m0: "leMargins (example_deleted\<lparr>debugLog := debugLog example_deleted
             @ [(''QCPColorScale::update'', ''internal axis rect was deleted'')]\<rparr>)
         = \<lparr>m_left = 0, m_top = 0, m_right = 0, m_bottom = 0\<rparr>"
    by (simp add: example_deleted_def example_scale_def)
  have "update example_layout_update example_rapi upMargins example_deleted
       \<noteq> example_deleted\<lparr>debugLog := debugLog example_deleted
             @ [(''QCPColorScale::update'', ''internal axis rect was deleted'')]\<rparr>"
  proof
    assume "update example_layout_update example_rapi upMargins example_deleted
       = example_deleted\<lparr>debugLog := debugLog example_deleted
             @ [(''QCPColorScale::update'', ''internal axis rect was deleted'')]\<rparr>"
    then have "leMargins (update example_layout_update example_rapi upMargins example_deleted)
       = leMargins (example_deleted\<lparr>debugLog := debugLog example_deleted
             @ [(''QCPColorScale::update'', ''internal axis rect was deleted'')]\<rparr>)"
      by simp
    with m m0 show False by simp
  qed
  with m show ?thesis
    by (simp add: example_deleted_def example_scale_def)
qed

theorem null_pointer_guards_witness:
  "mAxisRect example_deleted = None
   \<and> rangeDrag example_deleted =
        (False, example_deleted\<lparr>debugLog :=
                  [(''QCPColorScale::rangeDrag'', ''internal axis rect was deleted'')]\<rparr>)
   \<and> setType atLeft example_deleted =
        example_deleted\<lparr>debugLog :=
                  [(''QCPColorScale::setType'', ''internal axis rect was deleted'')]\<rparr>
   \<and> wheelEvent example_rapi () example_deleted =
        example_deleted\<lparr>debugLog :=
                  [(''QCPColorScale::wheelEvent'', ''internal axis rect was deleted'')]\<rparr>
   \<and> mAxisRect (example_scale\<lparr>mColorAxis := None\<rparr>) \<noteq> None
   \<and> mColorAxis (example_scale\<lparr>mColorAxis := None\<rparr>) = None
   \<and> rangeZoom (example_scale\<lparr>mColorAxis := None\<rparr>) =
        (False, example_scale\<lparr>mColorAxis := None, debugLog :=
                  [(''QCPColorScale::rangeZoom'', ''internal color axis undefined'')]\<rparr>)
   \<and> mAxisRect (example_layout_update upMargins example_deleted) = None
   \<and> update example_layout_update example_rapi upMargins example_deleted =
        (example_layout_update upMargins example_deleted)
          \<lparr>debugLog := [(''QCPColorScale::update'', ''internal axis rect was deleted'')]\<rparr>"
proof -
  have d: "mAxisRect example_deleted = None" "debugLog example_deleted = []"
    "mAxisRect (example_layout_update upMargins example_deleted) = None"
    "debugLog (example_layout_update upMargins example_deleted) = []"
    by (simp_all add: example_deleted_def example_scale_def example_layout_update_def)
  have c: "mAxisRect (example_scale\<lparr>mColorAxis := None\<rparr>) \<noteq> None"
    "mColorAxis (example_scale\<lparr>mColorAxis := None\<rparr>) = None"
    "debugLog (example_scale\<lparr>mColorAxis := None\<rparr>) = []"
    by (simp_all add: example_scale_def)
  from null_pointer_guards [of example_deleted atLeft True example_rapi "()" "()"
      example_layout_update upMargins]
    null_pointer_guards [of "example_scale\<lparr>mColorAxis := None\<rparr>" atLeft True example_rapi "()" "()"
      example_layout_update upMargins]
    d c
  show ?thesis
    by simp
qed


section \<open>The axis type\<close>

lemma axis_of_on_axis:
  "axis_of (on_axisRect (on_axis t f) s) a =
     (if a = t then map_option f (axis_of s a) else axis_of s a)"
  by (cases "mAxisRect s") (simp_all add: axis_of_def on_axisRect_def on_axis_def)

lemma axis_of_on_colorAxis:
  "axis_of (on_colorAxis f s) a =
     (if mColorAxis s = Some a then map_option f (axis_of s a) else axis_of s a)"
  by (cases "mAxisRect s"; cases "mColorAxis s")
    (auto simp: axis_of_def on_colorAxis_def colorAxis_def on_axis_def)

lemma axis_of_frame:
  "axis_of (connect x y z s) a = axis_of s a"
  "axis_of (disconnect x y z s) a = axis_of s a"
  "axis_of (emit sig s) a = axis_of s a"
  "axis_of (s\<lparr>mAxisType := t\<rparr>) a = axis_of s a"
  "axis_of (s\<lparr>mColorAxis := ca\<rparr>) a = axis_of s a"
  "axis_of (s\<lparr>mDataRange := dr\<rparr>) a = axis_of s a"
  "axis_of (on_axisRect (setRangeDragAxes h v) s) a = axis_of s a"
  by (simp_all add: axis_of_def connect_def disconnect_def emit_def on_axisRect_def
      setRangeDragAxes_def option.map_comp comp_def)

lemma frame_on_axisRect:
  "mAxisType (on_axisRect f s) = mAxisType s"
  "mColorAxis (on_axisRect f s) = mColorAxis s"
  "(mAxisRect (on_axisRect f s) = None) = (mAxisRect s = None)"
  by (simp_all add: on_axisRect_def)

lemma frame_on_colorAxis:
  "mAxisType (on_colorAxis f s) = mAxisType s"
  "mColorAxis (on_colorAxis f s) = mColorAxis s"
  "(mAxisRect (on_colorAxis f s) = None) = (mAxisRect s = None)"
  by (simp_all add: on_colorAxis_def colorAxis_def split: option.splits)

lemma frame_connect:
  "mAxisType (connect x y z s) = mAxisType s"
  "mColorAxis (connect x y z s) = mColorAxis s"
  "mAxisRect (connect x y z s) = mAxisRect s"
  "mAxisType (disconnect x y z s) = mAxisType s"
  "mColorAxis (disconnect x y z s) = mColorAxis s"
  "mAxisRect (disconnect x y z s) = mAxisRect s"
  by (simp_all add: connect_def disconnect_def)

lemma colorAxis_None: "mColorAxis s = None \<Longrightarrow> colorAxis s = None"
  by (simp add: colorAxis_def split: option.splits)

lemma colorAxis_Some:
  "mAxisRect s = Some r \<Longrightarrow> mColorAxis s = Some old \<Longrightarrow> colorAxis s = Some (r, old)"
  by (simp add: colorAxis_def)

lemmas axis_frame =
  axis_of_frame frame_on_axisRect frame_on_colorAxis frame_connect colorAxis_None colorAxis_Some

lemma axis_of_Some: "mAxisRect s = Some r \<Longrightarrow> axis_of s a = Some (axes r a)"
  by (simp add: axis_of_def)

lemma QCPRange_ctor_0_6:
  "QCPRange_ctor (Finite 0) (Finite 6) = \<lparr>lower = Finite 0, upper = Finite 6\<rparr>"
  by (simp add: QCPRange_ctor_def double_greater_def)

lemma setType_fields:
  assumes "mAxisRect s = Some r" and "mAxisType s \<noteq> t"
  shows "mAxisRect (setType t s) \<noteq> None"
    and "mAxisType (setType t s) = t"
    and "mColorAxis (setType t s) = Some t"
  using assms
  by (cases "mColorAxis s"; simp add: setType_def Let_def axis_frame)+

lemma setType_axis:
  assumes "mAxisRect s = Some r" and "mAxisType s \<noteq> t"
  shows "axis_of (setType t s) a =
    Some (if a = t
          then (axes r a)
                 \<lparr>mTicks := True, mTickLabels := True,
                  mRange := (case mColorAxis s of None \<Rightarrow> \<lparr>lower = Finite 0, upper = Finite 6\<rparr>
                             | Some old \<Rightarrow> mRange (axes r old)),
                  mLabel := (case mColorAxis s of None \<Rightarrow> []
                             | Some old \<Rightarrow> mLabel (axes r old)),
                  mScaleLogBase := (case mColorAxis s of None \<Rightarrow> Finite 10
                                    | Some old \<Rightarrow> mScaleLogBase (axes r old))\<rparr>
          else (axes r a)
                 \<lparr>mTicks := False, mTickLabels := False,
                  mLabel := (if mColorAxis s = Some a then [] else mLabel (axes r a))\<rparr>)"
proof (cases "mColorAxis s")
  case None
  with assms show ?thesis
    by (cases a)
      (simp_all add: setType_def Let_def axis_of_on_axis axis_of_on_colorAxis axis_of_Some
        axis_frame QCPRange_ctor_0_6 QCPAxis_setTicks_def QCPAxis_setTickLabels_def QCPAxis_setRange_def
        QCPAxis_setLabel_def QCPAxis_setScaleLogBase_def)
next
  case (Some old)
  with assms show ?thesis
    by (cases a)
      (simp_all add: setType_def Let_def axis_of_on_axis axis_of_on_colorAxis axis_of_Some
        axis_frame QCPRange_ctor_0_6 QCPAxis_setTicks_def QCPAxis_setTickLabels_def QCPAxis_setRange_def
        QCPAxis_setLabel_def QCPAxis_setScaleLogBase_def)
qed

lemma setDataRange_frame:
  "mAxisType (setDataRange r s) = mAxisType s"
  "mColorAxis (setDataRange r s) = mColorAxis s"
  "(mAxisRect (setDataRange r s) = None) = (mAxisRect s = None)"
  by (simp_all add: setDataRange_def Let_def emit_def axis_frame)

lemma axis_of_setDataRange:
  "axis_of (setDataRange r s) a =
     (if (double_ne (lower (mDataRange s)) (lower r)
            \<or> double_ne (upper (mDataRange s)) (upper r))
         \<and> mColorAxis s = Some a
      then map_option (QCPAxis_setRange r) (axis_of s a) else axis_of s a)"
  by (simp add: setDataRange_def Let_def axis_of_on_colorAxis axis_frame)

lemma axis_of_the: "mAxisRect s = Some r \<Longrightarrow> axes r a = the (axis_of s a)"
  by (simp add: axis_of_def)

lemma ctor_fields:
  "mAxisRect (QCPColorScale_ctor base baseRect) \<noteq> None"
  "mAxisType (QCPColorScale_ctor base baseRect) = atRight"
  "mColorAxis (QCPColorScale_ctor base baseRect) = Some atRight"
  by (simp_all add: QCPColorScale_ctor_def Let_def setType_fields setDataRange_frame)

lemma ctor_axis:
  "\<exists>ax. axis_of (QCPColorScale_ctor base baseRect) a = Some ax
        \<and> mTicks ax = (a = atRight) \<and> mTickLabels ax = (a = atRight)
        \<and> (a = atRight \<longrightarrow>
              mRange ax = \<lparr>lower = Finite 0, upper = Finite 6\<rparr> \<and> mLabel ax = [] \<and> mScaleLogBase ax = Finite 10)"
  by (simp add: QCPColorScale_ctor_def Let_def axis_of_setDataRange setType_fields setType_axis
      setDataRange_frame QCPAxis_setRange_def QCPRange_ctor_0_6)

text \<open>
  C9: after \<^verbatim>\<open>setType(t)\<close> with \<^term>\<open>t\<close> different from the current axis type, the axis
  on side \<^term>\<open>t\<close> and no other has ticks and tick labels, the color axis pointer refers
  to it, and it has the range, the label and the log base of the previous color axis, or
  the range (0, 6), the empty label and the base 10 when there was none. The same holds,
  with \<^term>\<open>atRight\<close> and the defaults, for a newly constructed color scale, whose
  constructor calls \<^verbatim>\<open>setType(atRight)\<close> and then \<^verbatim>\<open>setDataRange\<close> with the range (0, 6).
\<close>

theorem setType_invariant:
  "(mAxisRect s = Some r \<and> mAxisType s \<noteq> t \<longrightarrow>
      (\<exists>r'. mAxisRect (setType t s) = Some r'
         \<and> mAxisType (setType t s) = t
         \<and> mColorAxis (setType t s) = Some t
         \<and> (\<forall>a. mTicks (axes r' a) = (a = t))
         \<and> (\<forall>a. mTickLabels (axes r' a) = (a = t))
         \<and> mRange (axes r' t) =
             (case mColorAxis s of
                None \<Rightarrow> \<lparr>lower = Finite 0, upper = Finite 6\<rparr> | Some old \<Rightarrow> mRange (axes r old))
         \<and> mLabel (axes r' t) =
             (case mColorAxis s of None \<Rightarrow> [] | Some old \<Rightarrow> mLabel (axes r old))
         \<and> mScaleLogBase (axes r' t) =
             (case mColorAxis s of None \<Rightarrow> Finite 10 | Some old \<Rightarrow> mScaleLogBase (axes r old))))
   \<and> (\<exists>r'. mAxisRect (QCPColorScale_ctor base baseRect) = Some r'
         \<and> mAxisType (QCPColorScale_ctor base baseRect) = atRight
         \<and> mColorAxis (QCPColorScale_ctor base baseRect) = Some atRight
         \<and> (\<forall>a. mTicks (axes r' a) = (a = atRight))
         \<and> (\<forall>a. mTickLabels (axes r' a) = (a = atRight))
         \<and> mRange (axes r' atRight) = \<lparr>lower = Finite 0, upper = Finite 6\<rparr>
         \<and> mLabel (axes r' atRight) = []
         \<and> mScaleLogBase (axes r' atRight) = Finite 10)"
proof (intro conjI impI)
  assume a: "mAxisRect s = Some r \<and> mAxisType s \<noteq> t"
  then obtain r' where r': "mAxisRect (setType t s) = Some r'"
    using setType_fields(1) [of s r t] by auto
  have ax: "axes r' a = the (axis_of (setType t s) a)" for a
    using r' by (rule axis_of_the)
  from a show "\<exists>r'. mAxisRect (setType t s) = Some r'
         \<and> mAxisType (setType t s) = t
         \<and> mColorAxis (setType t s) = Some t
         \<and> (\<forall>a. mTicks (axes r' a) = (a = t))
         \<and> (\<forall>a. mTickLabels (axes r' a) = (a = t))
         \<and> mRange (axes r' t) =
             (case mColorAxis s of
                None \<Rightarrow> \<lparr>lower = Finite 0, upper = Finite 6\<rparr> | Some old \<Rightarrow> mRange (axes r old))
         \<and> mLabel (axes r' t) =
             (case mColorAxis s of None \<Rightarrow> [] | Some old \<Rightarrow> mLabel (axes r old))
         \<and> mScaleLogBase (axes r' t) =
             (case mColorAxis s of None \<Rightarrow> Finite 10 | Some old \<Rightarrow> mScaleLogBase (axes r old))"
    by (intro exI [of _ r']) (simp add: r' ax setType_fields setType_axis)
next
  obtain r' where r': "mAxisRect (QCPColorScale_ctor base baseRect) = Some r'"
    using ctor_fields(1) [of base baseRect] by auto
  have ax: "axes r' a = the (axis_of (QCPColorScale_ctor base baseRect) a)" for a
    using r' by (rule axis_of_the)
  have "mTicks (axes r' a) = (a = atRight) \<and> mTickLabels (axes r' a) = (a = atRight)" for a
    using ctor_axis [of base baseRect a] by (auto simp: ax)
  moreover have "mRange (axes r' atRight) = \<lparr>lower = Finite 0, upper = Finite 6\<rparr>
      \<and> mLabel (axes r' atRight) = [] \<and> mScaleLogBase (axes r' atRight) = Finite 10"
    using ctor_axis [of base baseRect atRight] by (auto simp: ax)
  ultimately show "\<exists>r'. mAxisRect (QCPColorScale_ctor base baseRect) = Some r'
         \<and> mAxisType (QCPColorScale_ctor base baseRect) = atRight
         \<and> mColorAxis (QCPColorScale_ctor base baseRect) = Some atRight
         \<and> (\<forall>a. mTicks (axes r' a) = (a = atRight))
         \<and> (\<forall>a. mTickLabels (axes r' a) = (a = atRight))
         \<and> mRange (axes r' atRight) = \<lparr>lower = Finite 0, upper = Finite 6\<rparr>
         \<and> mLabel (axes r' atRight) = []
         \<and> mScaleLogBase (axes r' atRight) = Finite 10"
    by (intro exI [of _ r']) (simp add: r' ctor_fields)
qed

theorem setType_invariant_witness:
  "mAxisRect example_scale = Some example_axisRect
   \<and> mAxisType example_scale \<noteq> atBottom
   \<and> (\<exists>r'. mAxisRect (setType atBottom example_scale) = Some r'
         \<and> mAxisType (setType atBottom example_scale) = atBottom
         \<and> mColorAxis (setType atBottom example_scale) = Some atBottom
         \<and> (\<forall>a. mTicks (axes r' a) = (a = atBottom))
         \<and> (\<forall>a. mTickLabels (axes r' a) = (a = atBottom))
         \<and> mRange (axes r' atBottom) = \<lparr>lower = Finite 1, upper = Finite 5\<rparr>
         \<and> mLabel (axes r' atBottom) = ''z''
         \<and> mScaleLogBase (axes r' atBottom) = Finite 2)"
proof -
  have f: "mAxisRect example_scale = Some example_axisRect"
    "mAxisType example_scale \<noteq> atBottom" "mColorAxis example_scale = Some atRight"
    "axes example_axisRect = (\<lambda>t. example_axis)"
    by (simp_all add: example_scale_def example_axisRect_def)
  from setType_invariant
      [of example_scale example_axisRect atBottom example_scale example_axisRect, THEN conjunct1] f
  show ?thesis
    by (simp add: example_axis_def)
qed

end
